theory Spec2Isabelle
  imports Main "HOL-Library.Word"
begin

unbundle bit_operations_syntax

section \<open>Intel IGD passthrough quirks (hw/vfio/igd.c)\<close>

text \<open>
  A shallow embedding of the IGD legacy-mode quirk code. C integers are words of their
  width (\<open>uint16_t\<close> is \<open>16 word\<close>, \<open>uint32_t\<close> is \<open>32 word\<close>, \<open>uint64_t\<close> is
  \<open>64 word\<close>); the generation number, a C \<open>int\<close> that only ever holds one of a few
  small constants and is only compared, is an \<open>int\<close>. The device, the bus around it,
  the firmware configuration channel and the answers of the host kernel are fields of one
  explicit state that every function takes and returns.
\<close>

subsection \<open>Configuration space\<close>

type_synonym byte = "8 word"

text \<open>A byte array indexed by configuration offset (\<open>uint8_t *config\<close>).\<close>

type_synonym config_space = "nat \<Rightarrow> byte"

text \<open>Copying a run of bytes to an address, as \<open>memcpy\<close> and \<open>pread\<close> into a buffer do.\<close>

fun store_bytes :: "config_space \<Rightarrow> nat \<Rightarrow> byte list \<Rightarrow> config_space" where
  "store_bytes c a [] = c"
| "store_bytes c a (b # bs) = store_bytes (c(a := b)) (Suc a) bs"

text \<open>
  Modelled from the spec: \<open>pci_set_long\<close>, \<open>pci_set_quad\<close>, \<open>pci_get_word\<close>,
  \<open>pci_get_long\<close> (include/hw/pci/pci.h) and \<open>cpu_to_le64\<close> are not
  in the source at hand. Configuration registers are little-endian: the least significant
  byte is stored at the lowest offset.
\<close>

definition le_bytes :: "nat \<Rightarrow> 'a::len word \<Rightarrow> byte list" where
  "le_bytes n v = map (\<lambda>i. ucast (drop_bit (8 * i) v)) [0..<n]"

definition pci_set_long :: "config_space \<Rightarrow> nat \<Rightarrow> 32 word \<Rightarrow> config_space" where
  "pci_set_long c a v = store_bytes c a (le_bytes 4 v)"

definition pci_set_quad :: "config_space \<Rightarrow> nat \<Rightarrow> 64 word \<Rightarrow> config_space" where
  "pci_set_quad c a v = store_bytes c a (le_bytes 8 v)"

definition pci_get_word :: "config_space \<Rightarrow> nat \<Rightarrow> 16 word" where
  "pci_get_word c a = ucast (c a) OR push_bit 8 (ucast (c (a + 1)))"

definition pci_get_long :: "config_space \<Rightarrow> nat \<Rightarrow> 32 word" where
  "pci_get_long c a =
     ucast (c a) OR push_bit 8 (ucast (c (a + 1))) OR push_bit 16 (ucast (c (a + 2)))
       OR push_bit 24 (ucast (c (a + 3)))"

text \<open>
  Modelled from the spec: the register offsets of include/standard-headers/linux/pci_regs.h,
  the class and vendor constants of pci_ids.h and \<open>PCI_DEVFN\<close> are not in the source at
  hand; they are the values the PCI specification fixes.
\<close>

definition PCI_VENDOR_ID :: nat where "PCI_VENDOR_ID = 0x00"
definition PCI_DEVICE_ID :: nat where "PCI_DEVICE_ID = 0x02"
definition PCI_REVISION_ID :: nat where "PCI_REVISION_ID = 0x08"
definition PCI_CLASS_DEVICE :: nat where "PCI_CLASS_DEVICE = 0x0a"
definition PCI_SUBSYSTEM_VENDOR_ID :: nat where "PCI_SUBSYSTEM_VENDOR_ID = 0x2c"
definition PCI_SUBSYSTEM_ID :: nat where "PCI_SUBSYSTEM_ID = 0x2e"
definition PCI_VENDOR_ID_INTEL :: "16 word" where "PCI_VENDOR_ID_INTEL = 0x8086"
definition PCI_CLASS_DISPLAY_VGA :: "16 word" where "PCI_CLASS_DISPLAY_VGA = 0x0300"
definition ENODEV :: int where "ENODEV = 19"

definition PCI_DEVFN :: "nat \<Rightarrow> nat \<Rightarrow> nat" where
  "PCI_DEVFN slot func = (slot mod 32) * 8 + func mod 8"

subsection \<open>The device\<close>

text \<open>
  \<open>VFIOConfigMirrorQuirk\<close> together with the memory region it is given by
  \<open>memory_region_init_io\<close> (name and size) and the priority it is overlaid with.
\<close>

record VFIOConfigMirrorQuirk =
  mr_name :: string
  mr_size :: nat
  mr_priority :: int
  bar :: int
  offset :: nat
  config_offset :: nat

text \<open>
  The fields of \<open>VFIOPCIDevice\<close> that igd.c reads or writes. The embedded
  \<open>PCIDevice pdev\<close> is flattened: \<open>pdev_config\<close> is \<open>vdev->pdev.config\<close>,
  \<open>pdev_hotplugged\<close> is \<open>vdev->pdev.qdev.hotplugged\<close>. \<open>vga\<close> says whether
  \<open>vdev->vga\<close> is non-NULL, \<open>igd_opregion\<close> is \<open>None\<close> for a NULL pointer and
  otherwise holds the buffer's bytes; \<open>bar_quirks nr\<close> is the list
  \<open>vdev->bars[nr].quirks\<close>, head first.
\<close>

record VFIOPCIDevice =
  pdev_config :: config_space
  pdev_wmask :: config_space
  pdev_hotplugged :: bool
  pdev_romfile :: "string option"
  emulated_config_bits :: config_space
  vendor_id :: "16 word"
  device_id :: "16 word"
  igd_opregion :: "byte list option"
  igd_gms :: "32 word"
  vga :: bool
  rom_read_failed :: bool
  bar_quirks :: "int \<Rightarrow> VFIOConfigMirrorQuirk list"

subsection \<open>Generation and stolen memory size\<close>

text \<open>
  \<open>igd_gen\<close>, lines 62 to 107: the test on bits 11:1 first, then the \<open>switch\<close> on
  \<open>device_id & 0xff00\<close>, whose case labels are compared in the order of the source.
\<close>

definition igd_gen :: "VFIOPCIDevice \<Rightarrow> int" where
  "igd_gen vdev =
     (if device_id vdev AND 0xffe = 0xa84 then 9
      else let sw = device_id vdev AND 0xff00 in
        if sw = 0x0100 then 6
        else if sw = 0x0400 \<or> sw = 0x0a00 \<or> sw = 0x0c00 \<or> sw = 0x0d00 \<or> sw = 0x0f00
          then 7
        else if sw = 0x1600 \<or> sw = 0x2200 then 8
        else if sw = 0x1900 \<or> sw = 0x3100 \<or> sw = 0x5900 \<or> sw = 0x3e00 \<or> sw = 0x9B00
          then 9
        else if sw = 0x8A00 \<or> sw = 0x4500 \<or> sw = 0x4E00 then 11
        else if sw = 0x9A00 \<or> sw = 0x4C00 \<or> sw = 0x4600 \<or> sw = 0xA700 then 12
        else - 1)"

definition IGD_ASLS :: nat where "IGD_ASLS = 0xfc"
definition IGD_GMCH :: nat where "IGD_GMCH = 0x50"
definition IGD_BDSM :: nat where "IGD_BDSM = 0x5c"
definition IGD_BDSM_GEN11 :: nat where "IGD_BDSM_GEN11 = 0xc0"

definition IGD_GMCH_GEN6_GMS_SHIFT :: nat where "IGD_GMCH_GEN6_GMS_SHIFT = 3"
definition IGD_GMCH_GEN6_GMS_MASK :: "32 word" where "IGD_GMCH_GEN6_GMS_MASK = 0x1f"
definition IGD_GMCH_GEN8_GMS_SHIFT :: nat where "IGD_GMCH_GEN8_GMS_SHIFT = 8"
definition IGD_GMCH_GEN8_GMS_MASK :: "32 word" where "IGD_GMCH_GEN8_GMS_MASK = 0xff"

text \<open>
  Modelled from the spec: the macro \<open>MiB\<close> of include/qemu/units.h is not in the source
  at hand; the spec reads it as the mebibyte, \<open>1 << 20\<close> bytes.
\<close>

definition MiB :: "64 word" where
  "MiB = push_bit 20 1"

text \<open>
  \<open>igd_stolen_memory_size\<close>, lines 119 to 140. The field is extracted in 32 bits and
  widened to the \<open>uint64_t gms\<close>; the products are 64-bit and would wrap.
\<close>

definition igd_stolen_memory_size :: "int \<Rightarrow> 32 word \<Rightarrow> 64 word" where
  "igd_stolen_memory_size gen gmch =
     (let gms = (if gen < 8
                 then ucast (drop_bit IGD_GMCH_GEN6_GMS_SHIFT gmch AND IGD_GMCH_GEN6_GMS_MASK)
                 else ucast (drop_bit IGD_GMCH_GEN8_GMS_SHIFT gmch AND IGD_GMCH_GEN8_GMS_MASK))
                :: 64 word
      in if gen < 9 then gms * 32 * MiB
         else if gms < 0xf0 then gms * 32 * MiB
         else (gms - 0xf0 + 1) * 4 * MiB)"

subsection \<open>The machine around the device\<close>

text \<open>
  \<open>struct vfio_region_info\<close> (linux/vfio.h): the two fields igd.c reads,
  \<open>info->size\<close> and \<open>info->offset\<close>, both \<open>__u64\<close>.
\<close>

record vfio_region_info =
  info_size :: "64 word"
  info_offset :: "64 word"

text \<open>
  The device-specific regions igd.c asks the kernel for, all of type
  \<open>VFIO_REGION_TYPE_PCI_VENDOR_TYPE | PCI_VENDOR_ID_INTEL\<close>, named by subtype.
\<close>

datatype igd_region = IGD_OPREGION | IGD_HOST_CFG | IGD_LPC_CFG

text \<open>
  What \<open>pread\<close> answers: \<open>-1\<close> with an \<open>errno\<close>, or the bytes it transferred
  (their number is its return value).
\<close>

datatype pread_result = PreadError int | PreadBytes "byte list"

text \<open>
  A device of bus 0 other than the passthrough device: its configuration bytes and the
  names of its QOM type and that type's ancestors.
\<close>

record PCIDevice =
  config :: config_space
  qom_types :: "string list"

text \<open>
  What \<open>pci_find_device\<close> can return for a slot of bus 0: the passthrough device
  itself (the pointer \<open>&vdev->pdev\<close>) or another device.
\<close>

datatype bus_slot = ThisDevice | Peer PCIDevice

text \<open>
  The errors igd.c sets with \<open>error_setg\<close>, under the names of the specification:
  \<^item> \<open>UnsupportedHotplug OpRegion\<close>: "IGD OpRegion is not supported on hotplugged device";
  \<^item> \<open>UnsupportedHotplug LPC\<close>: "IGD LPC is not supported on hotplugged device";
  \<^item> \<open>RegionUnavailable\<close>: "Device does not supports IGD OpRegion feature";
  \<^item> \<open>ReadFailed\<close>: "failed to read IGD OpRegion";
  \<^item> \<open>AddressConflict\<close>: "Cannot create LPC bridge due to existing device at 1f.0";
  \<^item> \<open>CapabilityMissing LPC\<close>: "IGD LPC bridge access is not supported by kernel";
  \<^item> \<open>CapabilityMissing HostBridge\<close>: "IGD host bridge access is not supported by kernel";
  \<^item> \<open>CopyFailed LPC\<close>: "Failed to create/modify LPC bridge for IGD";
  \<^item> \<open>CopyFailed HostBridge\<close>: "Failed to modify host bridge for IGD".
\<close>

datatype component = OpRegion | LPC | HostBridge

datatype igd_error =
    UnsupportedHotplug component
  | RegionUnavailable
  | ReadFailed
  | AddressConflict
  | CapabilityMissing component
  | CopyFailed component

text \<open>
  The lines igd.c writes with \<open>error_report\<close>: the four aborts of the region-4 probe,
  an error of a setup step reported with its hint, \<open>QERR_INVALID_PARAMETER_VALUE\<close> with
  its two arguments, and the two reports of the register copy.
\<close>

datatype report =
    UnsupportedGeneration
  | NoRom
  | HotpluggedRomDisabled
  | VgaEnableFailed
  | LegacyModeDisabled igd_error
  | InvalidParameterValue string string
  | IgdCopyFailed
  | NoHostBridge

datatype syscall =
    GetRomRegionInfo
  | GetDevRegionInfo igd_region
  | Pread nat "64 word"

text \<open>
  The state: the passthrough device, the devices of bus 0 under its root bus by
  \<open>devfn\<close>, the files of the firmware configuration channel in the order they were
  added, \<open>errno\<close>, the error lines reported and the kernel calls made so far. The
  \<open>host_\<close> fields are the answers of what is outside igd.c: the kernel's region
  descriptors and reads, \<open>vfio_pci_read_config\<close>, \<open>vfio_populate_vga\<close> and the
  device \<open>pci_create_simple\<close> builds.
\<close>

record machine =
  vdev :: VFIOPCIDevice
  bus0 :: "nat \<Rightarrow> bus_slot option"
  fw_cfg :: "(string \<times> byte list) list"
  errno :: int
  reports :: "report list"
  syscalls :: "syscall list"
  host_rom_region :: "vfio_region_info option"
  host_dev_region :: "igd_region \<Rightarrow> vfio_region_info option"
  host_pread :: "64 word \<Rightarrow> nat \<Rightarrow> pread_result"
  host_read_config :: "nat \<Rightarrow> nat \<Rightarrow> 32 word"
  host_populate_vga :: bool
  host_create_simple :: "nat \<Rightarrow> string \<Rightarrow> PCIDevice"

subsection \<open>Collaborators outside igd.c\<close>

text \<open>
  Modelled from the spec: the functions of this subsection are declared in pci.h,
  pci-quirks.h, fw_cfg.h and the VFIO helpers, none of which is in the source at hand.
  Each is the interface the specification lists: a region descriptor lookup, a raw
  synchronous read returning the bytes read or an error, a bus lookup by address, the
  creation of a device of a named type at an address, a firmware configuration file
  entry (name to bytes). The trace points (\<open>trace_vfio_pci_igd_...\<close>) change nothing
  and are left out.
\<close>

definition error_report :: "machine \<Rightarrow> report \<Rightarrow> machine" where
  "error_report m r = m\<lparr>reports := reports m @ [r]\<rparr>"

definition vfio_get_region_info_rom :: "machine \<Rightarrow> vfio_region_info option \<times> machine" where
  "vfio_get_region_info_rom m =
     (host_rom_region m, m\<lparr>syscalls := syscalls m @ [GetRomRegionInfo]\<rparr>)"

definition vfio_get_dev_region_info ::
  "machine \<Rightarrow> igd_region \<Rightarrow> vfio_region_info option \<times> machine" where
  "vfio_get_dev_region_info m subtype =
     (host_dev_region m subtype, m\<lparr>syscalls := syscalls m @ [GetDevRegionInfo subtype]\<rparr>)"

text \<open>\<open>pread\<close> transfers at most \<open>count\<close> bytes and sets \<open>errno\<close> when it fails.\<close>

definition pread :: "machine \<Rightarrow> nat \<Rightarrow> 64 word \<Rightarrow> pread_result \<times> machine" where
  "pread m count off =
     (let m1 = m\<lparr>syscalls := syscalls m @ [Pread count off]\<rparr>
      in case host_pread m off count of
           PreadError e \<Rightarrow> (PreadError e, m1\<lparr>errno := e\<rparr>)
         | PreadBytes bs \<Rightarrow> (PreadBytes (take count bs), m1))"

text \<open>
  The value of \<open>int ret\<close> after \<open>ret = pread(...)\<close>: the \<open>ssize_t\<close> result cut to
  32 bits.
\<close>

definition pread_ret :: "pread_result \<Rightarrow> 32 word" where
  "pread_ret r = (case r of PreadError e \<Rightarrow> - 1 | PreadBytes bs \<Rightarrow> word_of_nat (length bs))"

definition fw_cfg_add_file :: "machine \<Rightarrow> string \<Rightarrow> byte list \<Rightarrow> machine" where
  "fw_cfg_add_file m name data = m\<lparr>fw_cfg := fw_cfg m @ [(name, data)]\<rparr>"

definition pci_find_device :: "machine \<Rightarrow> nat \<Rightarrow> bus_slot option" where
  "pci_find_device m devfn = bus0 m devfn"

definition pci_create_simple :: "machine \<Rightarrow> nat \<Rightarrow> string \<Rightarrow> machine" where
  "pci_create_simple m devfn name =
     m\<lparr>bus0 := (bus0 m)(devfn \<mapsto> Peer (host_create_simple m devfn name))\<rparr>"

text \<open>The passthrough device is a \<open>vfio-pci\<close> device.\<close>

definition vfio_pci_types :: "string list" where
  "vfio_pci_types = [''vfio-pci'', ''pci-device'', ''device'', ''object'']"

definition object_dynamic_cast :: "bus_slot \<Rightarrow> string \<Rightarrow> bool" where
  "object_dynamic_cast obj typename =
     (case obj of
        ThisDevice \<Rightarrow> typename \<in> set vfio_pci_types
      | Peer d \<Rightarrow> typename \<in> set (qom_types d))"

definition PCI_ANY_ID :: "32 word" where "PCI_ANY_ID = - 1"

definition vfio_pci_is :: "VFIOPCIDevice \<Rightarrow> 32 word \<Rightarrow> 32 word \<Rightarrow> bool" where
  "vfio_pci_is d vendor device =
     ((vendor = PCI_ANY_ID \<or> vendor = ucast (vendor_id d)) \<and>
      (device = PCI_ANY_ID \<or> device = ucast (device_id d)))"

definition vfio_is_vga :: "VFIOPCIDevice \<Rightarrow> bool" where
  "vfio_is_vga d = (pci_get_word (pdev_config d) PCI_CLASS_DEVICE = PCI_CLASS_DISPLAY_VGA)"

definition vfio_pci_read_config :: "machine \<Rightarrow> nat \<Rightarrow> nat \<Rightarrow> 32 word" where
  "vfio_pci_read_config m addr len = host_read_config m addr len"

text \<open>On success \<open>vfio_populate_vga\<close> leaves \<open>vdev->vga\<close> set.\<close>

definition vfio_populate_vga :: "machine \<Rightarrow> bool \<times> machine" where
  "vfio_populate_vga m =
     (if host_populate_vga m then (True, m\<lparr>vdev := (vdev m)\<lparr>vga := True\<rparr>\<rparr>) else (False, m))"

text \<open>
  A write of bytes through a \<open>PCIDevice *\<close> into that device's \<open>config\<close>: the
  pointer is the slot of bus 0 it was found in or created at.
\<close>

definition store_config :: "machine \<Rightarrow> nat \<Rightarrow> nat \<Rightarrow> byte list \<Rightarrow> machine" where
  "store_config m devfn a bs =
     (case bus0 m devfn of
        None \<Rightarrow> m
      | Some ThisDevice \<Rightarrow>
          m\<lparr>vdev := (vdev m)\<lparr>pdev_config := store_bytes (pdev_config (vdev m)) a bs\<rparr>\<rparr>
      | Some (Peer d) \<Rightarrow>
          m\<lparr>bus0 := (bus0 m)(devfn \<mapsto> Peer (d\<lparr>config := store_bytes (config d) a bs\<rparr>))\<rparr>)"

subsection \<open>OpRegion setup\<close>

text \<open>
  \<open>vfio_pci_igd_opregion_init\<close>, lines 150 to 189. The buffer is zeroed by
  \<open>g_malloc0\<close> and then filled from its start with the bytes read. The test
  \<open>ret != info->size\<close> compares the \<open>int\<close> with a \<open>__u64\<close>, so \<open>ret\<close> is
  sign-extended to 64 bits first. On failure the buffer is freed and the pointer reset.
  \<open>g_malloc0\<close> either returns the buffer or ends the process; the model follows the
  run in which it returns. \<open>fw_cfg_add_file\<close> is handed the buffer itself, which is
  not written again: the file holds the buffer's bytes.
\<close>

definition vfio_pci_igd_opregion_init ::
  "machine \<Rightarrow> vfio_region_info \<Rightarrow> (igd_error + unit) \<times> machine" where
  "vfio_pci_igd_opregion_init m info =
     (let n = unat (info_size info) in
      case pread m n (info_offset info) of (r, m1) \<Rightarrow>
        let buf = (case r of
                     PreadError e \<Rightarrow> replicate n 0
                   | PreadBytes bs \<Rightarrow> bs @ replicate (n - length bs) 0)
        in if (scast (pread_ret r) :: 64 word) \<noteq> info_size info
           then (Inl ReadFailed, m1\<lparr>vdev := (vdev m1)\<lparr>igd_opregion := None\<rparr>\<rparr>)
           else
             let m2 = fw_cfg_add_file m1 ''etc/igd-opregion'' buf
             in (Inr (),
                 m2\<lparr>vdev := (vdev m2)
                   \<lparr>igd_opregion := Some buf,
                    pdev_config := pci_set_long (pdev_config (vdev m2)) IGD_ASLS 0,
                    pdev_wmask := pci_set_long (pdev_wmask (vdev m2)) IGD_ASLS (NOT 0),
                    emulated_config_bits :=
                      pci_set_long (emulated_config_bits (vdev m2)) IGD_ASLS (NOT 0)\<rparr>\<rparr>))"

text \<open>\<open>vfio_pci_igd_setup_opregion\<close>, lines 191 to 216.\<close>

definition vfio_pci_igd_setup_opregion :: "machine \<Rightarrow> (igd_error + unit) \<times> machine" where
  "vfio_pci_igd_setup_opregion m =
     (if pdev_hotplugged (vdev m) then (Inl (UnsupportedHotplug OpRegion), m)
      else case vfio_get_dev_region_info m IGD_OPREGION of
             (None, m1) \<Rightarrow> (Inl RegionUnavailable, m1)
           | (Some opregion, m1) \<Rightarrow> vfio_pci_igd_opregion_init m1 opregion)"

subsection \<open>Host bridge and LPC bridge\<close>

text \<open>\<open>IGDHostInfo\<close>: the pair of \<open>offset\<close> and \<open>len\<close>.\<close>

type_synonym IGDHostInfo = "nat \<times> nat"

definition igd_host_bridge_infos :: "IGDHostInfo list" where
  "igd_host_bridge_infos =
     [(PCI_REVISION_ID, 2), (PCI_SUBSYSTEM_VENDOR_ID, 2), (PCI_SUBSYSTEM_ID, 2)]"

definition igd_lpc_bridge_infos :: "IGDHostInfo list" where
  "igd_lpc_bridge_infos =
     [(PCI_VENDOR_ID, 2), (PCI_DEVICE_ID, 2), (PCI_REVISION_ID, 2),
      (PCI_SUBSYSTEM_VENDOR_ID, 2), (PCI_SUBSYSTEM_ID, 2)]"

text \<open>
  \<open>vfio_pci_igd_copy\<close>, lines 245 to 261: the loop over the list. The bytes a read
  transfers land in the target's \<open>config\<close> before the count is checked; a wrong
  count reports and returns \<open>-errno\<close>.
\<close>

fun vfio_pci_igd_copy ::
  "machine \<Rightarrow> nat \<Rightarrow> vfio_region_info \<Rightarrow> IGDHostInfo list \<Rightarrow> int \<times> machine" where
  "vfio_pci_igd_copy m pdev info [] = (0, m)"
| "vfio_pci_igd_copy m pdev info ((off, len) # list) =
     (case pread m len (info_offset info + word_of_nat off) of (r, m1) \<Rightarrow>
        let m2 = (case r of
                    PreadError e \<Rightarrow> m1
                  | PreadBytes bs \<Rightarrow> store_config m1 pdev off bs)
        in if sint (pread_ret r) \<noteq> int len
           then (- errno m2, error_report m2 IgdCopyFailed)
           else vfio_pci_igd_copy m2 pdev info list)"

text \<open>\<open>vfio_pci_igd_host_init\<close>, lines 266 to 288.\<close>

definition vfio_pci_igd_host_init :: "machine \<Rightarrow> vfio_region_info \<Rightarrow> int \<times> machine" where
  "vfio_pci_igd_host_init m info =
     (case pci_find_device m (PCI_DEVFN 0 0) of
        None \<Rightarrow> (- ENODEV, error_report m NoHostBridge)
      | Some host_bridge \<Rightarrow> vfio_pci_igd_copy m (PCI_DEVFN 0 0) info igd_host_bridge_infos)"

text \<open>\<open>vfio_pci_igd_lpc_init\<close>, lines 332 to 352.\<close>

definition vfio_pci_igd_lpc_init :: "machine \<Rightarrow> vfio_region_info \<Rightarrow> int \<times> machine" where
  "vfio_pci_igd_lpc_init m info =
     (let m1 = (case pci_find_device m (PCI_DEVFN 0x1f 0) of
                  None \<Rightarrow> pci_create_simple m (PCI_DEVFN 0x1f 0) ''vfio-pci-igd-lpc-bridge''
                | Some lpc_bridge \<Rightarrow> m)
      in vfio_pci_igd_copy m1 (PCI_DEVFN 0x1f 0) info igd_lpc_bridge_infos)"

text \<open>\<open>vfio_pci_igd_setup_lpc_bridge\<close>, lines 354 to 418.\<close>

definition vfio_pci_igd_setup_lpc_bridge :: "machine \<Rightarrow> (igd_error + unit) \<times> machine" where
  "vfio_pci_igd_setup_lpc_bridge m =
     (if pdev_hotplugged (vdev m) then (Inl (UnsupportedHotplug LPC), m)
      else if (case pci_find_device m (PCI_DEVFN 0x1f 0) of
                 None \<Rightarrow> False
               | Some lpc_bridge \<Rightarrow>
                   \<not> object_dynamic_cast lpc_bridge ''vfio-pci-igd-lpc-bridge'')
        then (Inl AddressConflict, m)
      else case vfio_get_dev_region_info m IGD_LPC_CFG of
             (None, m1) \<Rightarrow> (Inl (CapabilityMissing LPC), m1)
           | (Some lpc, m1) \<Rightarrow>
        (case vfio_get_dev_region_info m1 IGD_HOST_CFG of
             (None, m2) \<Rightarrow> (Inl (CapabilityMissing HostBridge), m2)
           | (Some host, m2) \<Rightarrow>
        (case vfio_pci_igd_lpc_init m2 lpc of (ret, m3) \<Rightarrow>
           if ret \<noteq> 0 then (Inl (CopyFailed LPC), m3)
           else
        (case vfio_pci_igd_host_init m3 host of (ret, m4) \<Rightarrow>
           if ret \<noteq> 0 then (Inl (CopyFailed HostBridge), m4)
           else (Inr (), m4)))))"

subsection \<open>The region-0 probe\<close>

definition IGD_GGC_MMIO_OFFSET :: nat where "IGD_GGC_MMIO_OFFSET = 0x108040"
definition IGD_BDSM_MMIO_OFFSET :: nat where "IGD_BDSM_MMIO_OFFSET = 0x1080C0"

text \<open>
  \<open>QLIST_INSERT_HEAD(&vdev->bars[nr].quirks, quirk, next)\<close> for a quirk whose data is
  the given mirror.
\<close>

definition quirk_insert_head :: "machine \<Rightarrow> int \<Rightarrow> VFIOConfigMirrorQuirk \<Rightarrow> machine" where
  "quirk_insert_head m nr q =
     m\<lparr>vdev := (vdev m)\<lparr>bar_quirks := (bar_quirks (vdev m))(nr := q # bar_quirks (vdev m) nr)\<rparr>\<rparr>"

text \<open>The pointer comparison \<open>&vdev->pdev == p\<close>.\<close>

definition is_pdev_of_vdev :: "bus_slot option \<Rightarrow> bool" where
  "is_pdev_of_vdev p = (case p of Some ThisDevice \<Rightarrow> True | _ \<Rightarrow> False)"

text \<open>
  The test that opens both probes, lines 434 to 437 and 499 to 502, with the region
  index the probe is for: true when the probe returns at once.
\<close>

definition not_legacy_igd :: "machine \<Rightarrow> int \<Rightarrow> int \<Rightarrow> bool" where
  "not_legacy_igd m nr wanted =
     (\<not> vfio_pci_is (vdev m) (ucast PCI_VENDOR_ID_INTEL) PCI_ANY_ID \<or>
      \<not> vfio_is_vga (vdev m) \<or> nr \<noteq> wanted \<or>
      \<not> is_pdev_of_vdev (pci_find_device m (PCI_DEVFN 0x2 0)))"

text \<open>\<open>vfio_probe_igd_bar0_quirk\<close>, lines 423 to 483.\<close>

definition vfio_probe_igd_bar0_quirk :: "machine \<Rightarrow> int \<Rightarrow> machine" where
  "vfio_probe_igd_bar0_quirk m nr =
     (if not_legacy_igd m nr 0 then m
      else
        let gen = igd_gen (vdev m) in
        if gen < 6 then m
        else
          let ggc_mirror =
                \<lparr>mr_name = ''vfio-igd-ggc-quirk'', mr_size = 2, mr_priority = 1, bar = nr,
                 offset = IGD_GGC_MMIO_OFFSET, config_offset = IGD_GMCH\<rparr>;
              m1 = quirk_insert_head m nr ggc_mirror;
              bdsm_mirror =
                \<lparr>mr_name = ''vfio-igd-bdsm-quirk'', mr_size = (if gen < 11 then 4 else 8),
                 mr_priority = 1, bar = nr, offset = IGD_BDSM_MMIO_OFFSET,
                 config_offset = (if gen < 11 then IGD_BDSM else IGD_BDSM_GEN11)\<rparr>
          in quirk_insert_head m1 nr bdsm_mirror)"

subsection \<open>The region-4 probe\<close>

text \<open>
  \<open>vfio_probe_igd_bar4_quirk\<close>, lines 485 to 627, in three parts. The first is lines
  499 to 568: every step that can end the probe early. It returns \<open>Inl\<close> with the final
  state when the probe ends there, and otherwise \<open>Inr\<close> with \<open>gen\<close>, \<open>gmch\<close> and
  the state at line 569.
\<close>

definition igd_bar4_setup :: "machine \<Rightarrow> int \<Rightarrow> machine + (int \<times> 32 word \<times> machine)" where
  "igd_bar4_setup m nr =
     (if not_legacy_igd m nr 4 then Inl m
      else
        let gen = igd_gen (vdev m) in
        if gen = - 1 then Inl (error_report m UnsupportedGeneration)
        else
      case vfio_get_region_info_rom m of (rom, m1) \<Rightarrow>
        if (case rom of None \<Rightarrow> True | Some r \<Rightarrow> info_size r = 0) \<and>
           pdev_romfile (vdev m1) = None
        then Inl (error_report m1 NoRom)
        else if pdev_hotplugged (vdev m1)
        then Inl ((error_report m1 HotpluggedRomDisabled)
                    \<lparr>vdev := (vdev m1)\<lparr>rom_read_failed := True\<rparr>\<rparr>)
        else
          let gmch = vfio_pci_read_config m1 IGD_GMCH 4 in
      case (if gmch AND 0x2 = 0 \<and> \<not> vga (vdev m1) then vfio_populate_vga m1 else (True, m1))
      of (vga_ok, m2) \<Rightarrow>
        if \<not> vga_ok then Inl (error_report m2 VgaEnableFailed)
        else
      case vfio_pci_igd_setup_opregion m2 of
        (Inl err, m3) \<Rightarrow> Inl (error_report m3 (LegacyModeDisabled err))
      | (Inr _, m3) \<Rightarrow>
      (case vfio_pci_igd_setup_lpc_bridge m3 of
        (Inl err, m4) \<Rightarrow> Inl (error_report m4 (LegacyModeDisabled err))
      | (Inr _, m4) \<Rightarrow> Inr (gen, gmch, m4)))"

text \<open>
  The second part is lines 575 to 593, the \<open>x-igd-gms\<close> override: the new value of
  \<open>gmch\<close> and the state.
\<close>

definition igd_bar4_override :: "machine \<Rightarrow> int \<Rightarrow> 32 word \<Rightarrow> 32 word \<times> machine" where
  "igd_bar4_override m gen gmch =
     (if igd_gms (vdev m) \<noteq> 0 then
        if gen < 8 then
          if igd_gms (vdev m) \<le> 0x10
          then ((gmch AND NOT (push_bit IGD_GMCH_GEN6_GMS_SHIFT IGD_GMCH_GEN6_GMS_MASK))
                  OR push_bit IGD_GMCH_GEN6_GMS_SHIFT (igd_gms (vdev m)), m)
          else (gmch, error_report m (InvalidParameterValue ''x-igd-gms'' ''0~0x10''))
        else
          if igd_gms (vdev m) \<le> 0x40
          then ((gmch AND NOT (push_bit IGD_GMCH_GEN8_GMS_SHIFT IGD_GMCH_GEN8_GMS_MASK))
                  OR push_bit IGD_GMCH_GEN8_GMS_SHIFT (igd_gms (vdev m)), m)
          else (gmch, error_report m (InvalidParameterValue ''x-igd-gms'' ''0~0x40''))
      else (gmch, m))"

text \<open>
  The third part is lines 595 to 626: the size, its firmware configuration file and the
  two registers.
\<close>

definition igd_bar4_publish :: "machine \<Rightarrow> int \<Rightarrow> 32 word \<Rightarrow> machine" where
  "igd_bar4_publish m gen gmch =
     (let gms_size = igd_stolen_memory_size gen gmch;
          m1 = fw_cfg_add_file m ''etc/igd-bdsm-size'' (le_bytes 8 gms_size);
          d1 = (vdev m1)
                 \<lparr>pdev_config := pci_set_long (pdev_config (vdev m1)) IGD_GMCH gmch,
                  pdev_wmask := pci_set_long (pdev_wmask (vdev m1)) IGD_GMCH 0,
                  emulated_config_bits :=
                    pci_set_long (emulated_config_bits (vdev m1)) IGD_GMCH (NOT 0)\<rparr>;
          d2 = (if gen < 11
                then d1\<lparr>pdev_config := pci_set_long (pdev_config d1) IGD_BDSM 0,
                        pdev_wmask := pci_set_long (pdev_wmask d1) IGD_BDSM (NOT 0),
                        emulated_config_bits :=
                          pci_set_long (emulated_config_bits d1) IGD_BDSM (NOT 0)\<rparr>
                else d1\<lparr>pdev_config := pci_set_quad (pdev_config d1) IGD_BDSM_GEN11 0,
                        pdev_wmask := pci_set_quad (pdev_wmask d1) IGD_BDSM_GEN11 (NOT 0),
                        emulated_config_bits :=
                          pci_set_quad (emulated_config_bits d1) IGD_BDSM_GEN11 (NOT 0)\<rparr>)
      in m1\<lparr>vdev := d2\<rparr>)"

definition vfio_probe_igd_bar4_quirk :: "machine \<Rightarrow> int \<Rightarrow> machine" where
  "vfio_probe_igd_bar4_quirk m nr =
     (case igd_bar4_setup m nr of
        Inl m' \<Rightarrow> m'
      | Inr (gen, gmch, m4) \<Rightarrow>
          (case igd_bar4_override m4 gen gmch of (gmch', m5) \<Rightarrow> igd_bar4_publish m5 gen gmch'))"

subsection \<open>The classification table of the specification\<close>

text \<open>
  The table of the specification, keyed by the top byte of the device ID, and the two
  readings of its classifier: \<open>classify_low11\<close> tests the low 11 bits as the
  specification words it, \<open>classify_bits_11_1\<close> tests bits 11 to 1 (mask \<open>0xffe\<close>).
\<close>

definition gen_table :: "(nat \<times> int) list" where
  "gen_table =
     [(0x01, 6),
      (0x04, 7), (0x0a, 7), (0x0c, 7), (0x0d, 7), (0x0f, 7),
      (0x16, 8), (0x22, 8),
      (0x19, 9), (0x31, 9), (0x59, 9), (0x3e, 9), (0x9B, 9),
      (0x8A, 11), (0x45, 11), (0x4E, 11),
      (0x9A, 12), (0x4C, 12), (0x46, 12), (0xA7, 12)]"

definition top_byte :: "16 word \<Rightarrow> nat" where
  "top_byte d = unat d div 256"

definition by_top_byte :: "16 word \<Rightarrow> int" where
  "by_top_byte d = (case map_of gen_table (top_byte d) of Some g \<Rightarrow> g | None \<Rightarrow> - 1)"

definition classify_low11 :: "16 word \<Rightarrow> int" where
  "classify_low11 d = (if unat d mod 2 ^ 11 = 0xa84 then 9 else by_top_byte d)"

definition classify_bits_11_1 :: "16 word \<Rightarrow> int" where
  "classify_bits_11_1 d = (if unat d div 2 mod 2 ^ 11 = 0xa84 div 2 then 9 else by_top_byte d)"

subsection \<open>The stolen-memory field of the register\<close>

text \<open>
  The stolen-memory field of a graphics control value as the specification describes it,
  bits 7 to 3 below generation 8 and bits 15 to 8 from generation 8 on, and the value
  with that field cleared.
\<close>

definition gms_field :: "int \<Rightarrow> 32 word \<Rightarrow> 32 word" where
  "gms_field gen gmch = (if gen < 8 then take_bit 5 (drop_bit 3 gmch) else take_bit 8 (drop_bit 8 gmch))"

definition gms_cleared :: "int \<Rightarrow> 32 word \<Rightarrow> 32 word" where
  "gms_cleared gen gmch = (if gen < 8 then gmch AND NOT 0xf8 else gmch AND NOT 0xff00)"

text \<open>A raw read of \<open>n\<close> bytes that failed or came back short.\<close>

definition short_read :: "pread_result \<Rightarrow> nat \<Rightarrow> bool" where
  "short_read r n = (case r of PreadError e \<Rightarrow> True | PreadBytes bs \<Rightarrow> length bs < n)"

subsection \<open>Concrete machines\<close>

text \<open>A device record with every field cleared, to build concrete devices from.\<close>

definition zero_device :: VFIOPCIDevice where
  "zero_device =
     \<lparr>pdev_config = (\<lambda>_. 0), pdev_wmask = (\<lambda>_. 0), pdev_hotplugged = False,
      pdev_romfile = None, emulated_config_bits = (\<lambda>_. 0), vendor_id = 0, device_id = 0,
      igd_opregion = None, igd_gms = 0, vga = False, rom_read_failed = False,
      bar_quirks = (\<lambda>_. [])\<rparr>"

text \<open>
  An Intel VGA device with the given device ID and \<open>x-igd-gms\<close> value at 00:02.0 of a
  machine with a host bridge at 00:00.0 and nothing at 00:1f.0. The kernel offers a
  64 KiB ROM and 4-byte device regions, every read returns all the bytes asked for, and
  the graphics control register reads \<open>0x1000\<close>: VGA enabled, 8-bit stolen-memory
  field \<open>0x10\<close>.
\<close>

definition igd_device :: "16 word \<Rightarrow> 32 word \<Rightarrow> VFIOPCIDevice" where
  "igd_device did gms =
     zero_device\<lparr>pdev_config := (\<lambda>_. 0)(0x0b := 0x03), vendor_id := 0x8086,
       device_id := did, igd_gms := gms\<rparr>"

definition host_bridge :: PCIDevice where
  "host_bridge = \<lparr>config = (\<lambda>_. 0), qom_types = [''mch'', ''pci-device'', ''device'', ''object'']\<rparr>"

definition igd_machine :: "16 word \<Rightarrow> 32 word \<Rightarrow> machine" where
  "igd_machine did gms =
     \<lparr>vdev = igd_device did gms,
      bus0 = [PCI_DEVFN 0 0 \<mapsto> Peer host_bridge, PCI_DEVFN 2 0 \<mapsto> ThisDevice],
      fw_cfg = [], errno = 0, reports = [], syscalls = [],
      host_rom_region = Some \<lparr>info_size = 0x10000, info_offset = 0\<rparr>,
      host_dev_region = (\<lambda>_. Some \<lparr>info_size = 4, info_offset = 0x1000\<rparr>),
      host_pread = (\<lambda>off count. PreadBytes (replicate count 0x5a)),
      host_read_config = (\<lambda>addr len. 0x1000),
      host_populate_vga = True,
      host_create_simple =
        (\<lambda>devfn name. \<lparr>config = (\<lambda>_. 0), qom_types = [name, ''pci-device'', ''device'', ''object'']\<rparr>)\<rparr>"

text \<open>The Skylake device \<open>0x1912\<close> without an override, and the same device hot-added.\<close>

definition skylake_machine :: machine where
  "skylake_machine = igd_machine 0x1912 0"

definition hotplugged_machine :: machine where
  "hotplugged_machine = skylake_machine\<lparr>vdev := (igd_device 0x1912 0)\<lparr>pdev_hotplugged := True\<rparr>\<rparr>"

text \<open>The Skylake machine on a kernel whose reads come back one byte short.\<close>

definition short_read_machine :: machine where
  "short_read_machine =
     skylake_machine\<lparr>host_pread := (\<lambda>off count. PreadBytes (replicate (count - 1) 0x5a))\<rparr>"

text \<open>The Skylake machine with an ISA bridge of another type at 00:1f.0.\<close>

definition ich9_lpc :: PCIDevice where
  "ich9_lpc = \<lparr>config = (\<lambda>_. 0), qom_types = [''ICH9-LPC'', ''pci-device'', ''device'', ''object'']\<rparr>"

definition q35_machine :: machine where
  "q35_machine = skylake_machine\<lparr>bus0 := (bus0 skylake_machine)(PCI_DEVFN 0x1f 0 \<mapsto> Peer ich9_lpc)\<rparr>"

section \<open>Word arithmetic\<close>

lemma mask_ff00: "(0xff00 :: 16 word) = NOT (mask 8)"
  by (simp add: mask_eq_exp_minus_1)

lemma and_not_mask8: "(d :: 16 word) AND NOT (mask 8) = push_bit 8 (drop_bit 8 d)"
  by (rule bit_word_eqI) (auto simp add: bit_simps)

lemma unat_lt_65536: "unat (d :: 16 word) < 65536"
  using unsigned_less [of d, where ?'a = nat] by simp

lemma unat_and_ff00: "unat ((d :: 16 word) AND 0xff00) = 256 * (unat d div 256)"
proof -
  have "unat (push_bit 8 (drop_bit 8 d)) = take_bit 16 (push_bit 8 (drop_bit 8 (unat d)))"
    by (simp only: unsigned_push_bit_eq unat_drop_bit_eq) simp
  also have "\<dots> = 256 * (unat d div 256)"
    using unat_lt_65536 [of d]
    by (simp add: take_bit_eq_mod push_bit_eq_mult drop_bit_eq_div)
  finally show ?thesis
    by (simp only: mask_ff00 and_not_mask8)
qed

lemma and_ff00_eq: "((d :: 16 word) AND 0xff00 = k) = (256 * top_byte d = unat k)"
  by (simp add: word_unat_eq_iff unat_and_ff00 top_byte_def)

lemma unat_and_mask: "unat ((w :: 'a::len word) AND mask n) = unat w mod 2 ^ n"
proof -
  have "unat (w AND mask n) = take_bit n (unat w)"
    by (simp only: unsigned_take_bit_eq flip: take_bit_eq_mask)
  then show ?thesis by (simp add: take_bit_eq_mod)
qed

lemma unat_gms_gen6: "unat (drop_bit 3 (gmch :: 32 word) AND 0x1f) = unat gmch div 8 mod 32"
  using unat_and_mask [of "drop_bit 3 gmch" 5]
  by (simp add: mask_eq_exp_minus_1 unat_drop_bit_eq drop_bit_eq_div unat_div)

lemma unat_gms_gen8: "unat (drop_bit 8 (gmch :: 32 word) AND 0xff) = unat gmch div 256 mod 256"
  using unat_and_mask [of "drop_bit 8 gmch" 8]
  by (simp add: mask_eq_exp_minus_1 unat_drop_bit_eq drop_bit_eq_div unat_div)

lemma mask_ffe: "(0xffe :: 16 word) = mask 12 AND NOT (mask 1)"
  by (simp add: mask_eq_exp_minus_1)

lemma unat_and_ffe: "unat ((d :: 16 word) AND 0xffe) = 2 * (unat d div 2 mod 2 ^ 11)"
proof -
  have "d AND 0xffe = push_bit 1 (take_bit 11 (drop_bit 1 d))"
    unfolding mask_ffe using slice_eq_mask [of 1 11 d] by (simp add: and.assoc)
  then have "unat (d AND 0xffe) = take_bit 16 (push_bit 1 (take_bit 11 (drop_bit 1 (unat d))))"
    by (simp only: unsigned_push_bit_eq unsigned_take_bit_eq unat_drop_bit_eq) simp
  also have "\<dots> = 2 * (unat d div 2 mod 2 ^ 11)"
    using unat_lt_65536 [of d]
    by (simp add: take_bit_eq_mod push_bit_eq_mult drop_bit_eq_div)
  finally show ?thesis .
qed

lemma and_ffe_eq:
  "((d :: 16 word) AND 0xffe = 0xa84) = (unat d div 2 mod 2 ^ 11 = 0xa84 div 2)"
  by (simp add: word_unat_eq_iff unat_and_ffe)

lemma unat_ucast_32_64: "unat (ucast (w :: 32 word) :: 64 word) = unat w"
proof -
  have "unat w < 2 ^ 32" using unsigned_less [of w, where ?'a = nat] by simp
  then have "unat w < 2 ^ 64" by simp
  then show ?thesis by (simp add: unsigned_ucast_eq take_bit_eq_mod)
qed

lemma unat_units32:
  assumes "unat (g :: 64 word) < 256"
  shows "unat (g * 32 * MiB) = unat g * (32 * 2 ^ 20)"
proof -
  have "unat (g * 32 * MiB) = (unat g * 33554432) mod 2 ^ 64"
    by (simp add: MiB_def unat_word_ariths mod_mult_left_eq mult.assoc)
  also have "\<dots> = unat g * 33554432"
    using assms by simp
  finally show ?thesis by simp
qed

lemma unat_units4:
  assumes "240 \<le> unat (g :: 64 word)" "unat g < 256"
  shows "unat ((g - 0xf0 + 1) * 4 * MiB) = (unat g - 240 + 1) * (4 * 2 ^ 20)"
proof -
  have le: "(0xef :: 64 word) \<le> g" using assms(1) by (simp add: word_le_nat_alt)
  have "g - 0xf0 + 1 = g - 0xef" by simp
  moreover have "unat (g - 0xef) = unat g - 239" using le by (simp add: unat_sub)
  ultimately have s: "unat (g - 0xf0 + 1) = unat g - 240 + 1"
    using assms(1) by simp
  have m: "unat (h * 4 * MiB) = (unat h * 4194304) mod 2 ^ 64" for h :: "64 word"
    by (simp add: MiB_def unat_word_ariths mod_mult_left_eq mult.assoc)
  have "unat ((g - 0xf0 + 1) * 4 * MiB) = (unat (g - 0xf0 + 1) * 4194304) mod 2 ^ 64"
    by (rule m)
  also have "\<dots> = (unat g - 240 + 1) * 4194304"
    using assms(2) by (simp only: s) simp
  finally show ?thesis by simp
qed

lemma igd_gen_cases: "igd_gen dev \<in> {- 1, 6, 7, 8, 9, 11, 12}"
  by (simp add: igd_gen_def Let_def)

section \<open>The generation classifier\<close>

text \<open>
  Claim C1, as amended. The classifier is a function of the device ID alone: an ID
  whose bits 11 to 1 are those of \<open>0xa84\<close> (the ID under the mask \<open>0xffe\<close>) is
  generation 9 whatever its top byte; any other ID whose top byte is in the table of the
  specification has the generation listed there; every other ID is unsupported, \<open>-1\<close>.
\<close>

theorem igd_gen_classify: "igd_gen dev = classify_bits_11_1 (device_id dev)"
  unfolding igd_gen_def classify_bits_11_1_def by_top_byte_def and_ffe_eq
  by (simp add: gen_table_def and_ff00_eq Let_def)

text \<open>
  Claim C1 as the specification words it tests the low 11 bits of the ID against
  \<open>0xa84\<close>, a number of 12 bits. The Broxton ID \<open>0x5a85\<close> has low 11 bits \<open>0x285\<close>
  and top byte \<open>0x5a\<close>, which the table does not list: the wording makes it
  unsupported, the code makes it generation 9.
\<close>

theorem igd_gen_low11_counterexample:
  "classify_low11 0x5a85 = - 1 \<and> igd_gen (zero_device\<lparr>device_id := 0x5a85\<rparr>) = 9"
  by (simp add: classify_low11_def by_top_byte_def top_byte_def gen_table_def igd_gen_def
      zero_device_def)

text \<open>
  Claim C9. The classifier returns one of \<open>-1, 6, 7, 8, 9, 11, 12\<close>, each of them for
  some device ID, and never 10.
\<close>

theorem igd_gen_range: "range igd_gen = {- 1, 6, 7, 8, 9, 11, 12} \<and> 10 \<notin> range igd_gen"
proof -
  have a: "igd_gen (zero_device\<lparr>device_id := 0\<rparr>) = - 1"
    and b: "igd_gen (zero_device\<lparr>device_id := 0x0100\<rparr>) = 6"
    and c: "igd_gen (zero_device\<lparr>device_id := 0x0400\<rparr>) = 7"
    and d: "igd_gen (zero_device\<lparr>device_id := 0x1600\<rparr>) = 8"
    and e: "igd_gen (zero_device\<lparr>device_id := 0x1900\<rparr>) = 9"
    and f: "igd_gen (zero_device\<lparr>device_id := 0x8A00\<rparr>) = 11"
    and g: "igd_gen (zero_device\<lparr>device_id := 0x9A00\<rparr>) = 12"
    by (simp_all add: igd_gen_def)
  have sub: "range igd_gen \<subseteq> {- 1, 6, 7, 8, 9, 11, 12}"
    using igd_gen_cases by blast
  have sup: "{- 1, 6, 7, 8, 9, 11, 12} \<subseteq> range igd_gen"
    using a b c d e f g by (metis insert_subset empty_subsetI rangeI)
  from sub sup have eq: "range igd_gen = {- 1, 6, 7, 8, 9, 11, 12}"
    by (rule subset_antisym)
  show ?thesis by (simp add: eq)
qed

lemma igd_stolen_memory_size_unat:
  "unat (igd_stolen_memory_size gen gmch) =
     (let field = (if gen < 8 then unat gmch div 2 ^ 3 mod 2 ^ 5
                   else unat gmch div 2 ^ 8 mod 2 ^ 8)
      in if gen < 9 then field * (32 * 2 ^ 20)
         else if field < 0xF0 then field * (32 * 2 ^ 20)
         else (field - 0xF0 + 1) * (4 * 2 ^ 20))"
proof -
  define g :: "64 word" where
    "g = (if gen < 8 then ucast (drop_bit 3 gmch AND 0x1f) else ucast (drop_bit 8 gmch AND 0xff))"
  define field where
    "field = (if gen < 8 then unat gmch div 2 ^ 3 mod 2 ^ 5 else unat gmch div 2 ^ 8 mod 2 ^ 8)"
  have ug: "unat g = field"
    by (simp add: g_def field_def unat_ucast_32_64 unat_gms_gen6 unat_gms_gen8)
  have lt: "unat g < 256"
    unfolding ug field_def using mod_less_divisor [of 32 "unat gmch div 8"] by auto
  have sz: "igd_stolen_memory_size gen gmch =
      (if gen < 9 then g * 32 * MiB
       else if g < 0xf0 then g * 32 * MiB else (g - 0xf0 + 1) * 4 * MiB)"
    by (simp add: igd_stolen_memory_size_def g_def Let_def IGD_GMCH_GEN6_GMS_SHIFT_def
        IGD_GMCH_GEN6_GMS_MASK_def IGD_GMCH_GEN8_GMS_SHIFT_def IGD_GMCH_GEN8_GMS_MASK_def)
  have cmp: "(g < 0xf0) = (field < 240)"
    by (simp add: word_less_nat_alt ug)
  show ?thesis
    unfolding sz cmp field_def [symmetric] Let_def
    using unat_units32 [OF lt] unat_units4 [OF _ lt] by (auto simp: ug)
qed

section \<open>The stolen memory size\<close>

text \<open>
  Claim C2. For every generation and every 32-bit register value the size is computed
  from a 5-bit field at shift 3 below generation 8 and from an 8-bit field at shift 8
  from generation 8 on; it is the field times 32 MiB below generation 9, and from
  generation 9 on the field times 32 MiB when the field is below \<open>0xF0\<close> and
  \<open>(field - 0xF0 + 1)\<close> times 4 MiB otherwise. The equation is between natural
  numbers, so no product wraps around in the 64-bit result. Generation 9 with the field
  \<open>0xF5\<close> gives 24 MiB.
\<close>

theorem igd_stolen_memory_size_exact:
  "unat (igd_stolen_memory_size gen gmch) =
     (let field = (if gen < 8 then unat gmch div 2 ^ 3 mod 2 ^ 5
                   else unat gmch div 2 ^ 8 mod 2 ^ 8)
      in if gen < 9 then field * (32 * 2 ^ 20)
         else if field < 0xF0 then field * (32 * 2 ^ 20)
         else (field - 0xF0 + 1) * (4 * 2 ^ 20))
   \<and> unat (igd_stolen_memory_size 9 0xF500) = 24 * 2 ^ 20"
proof -
  have "unat (igd_stolen_memory_size 9 0xF500) = 24 * 2 ^ 20"
    by (simp add: igd_stolen_memory_size_unat)
  with igd_stolen_memory_size_unat [of gen gmch] show ?thesis by blast
qed

section \<open>Registers as bytes\<close>

lemma le_bytes4: "le_bytes 4 (v :: 32 word) = [ucast v, ucast (drop_bit 8 v), ucast (drop_bit 16 v), ucast (drop_bit 24 v)]"
  by (simp add: le_bytes_def upt_rec)

lemma le_bytes8: "le_bytes 8 (v :: 64 word) = [ucast v, ucast (drop_bit 8 v), ucast (drop_bit 16 v), ucast (drop_bit 24 v),
   ucast (drop_bit 32 v), ucast (drop_bit 40 v), ucast (drop_bit 48 v), ucast (drop_bit 56 v)]"
  by (simp add: le_bytes_def upt_rec)

lemma word32_bytes: "(ucast (ucast (v :: 32 word) :: 8 word) :: 32 word) OR push_bit 8 (ucast (ucast (drop_bit 8 v) :: 8 word))
     OR push_bit 16 (ucast (ucast (drop_bit 16 v) :: 8 word)) OR push_bit 24 (ucast (ucast (drop_bit 24 v) :: 8 word)) = v"
proof (rule bit_word_eqI)
  fix n assume n: "n < LENGTH(32)"
  consider "n < 8" | "8 \<le> n" "n < 16" | "16 \<le> n" "n < 24" | "24 \<le> n" "n < 32"
    using n by fastforce
  then show "bit (ucast (ucast v :: 8 word) OR push_bit 8 (ucast (ucast (drop_bit 8 v) :: 8 word))
     OR push_bit 16 (ucast (ucast (drop_bit 16 v) :: 8 word)) OR push_bit 24 (ucast (ucast (drop_bit 24 v) :: 8 word)) :: 32 word) n = bit v n"
    by cases (auto simp add: bit_simps)
qed

lemma pci_get_set_long: "pci_get_long (pci_set_long c a v) a = v"
  by (simp add: pci_get_long_def pci_set_long_def le_bytes4 word32_bytes)

lemma pci_get_set_long_other: "a + 4 \<le> b \<or> b + 4 \<le> a \<Longrightarrow> pci_get_long (pci_set_long c b v) a = pci_get_long c a"
  by (auto simp add: pci_get_long_def pci_set_long_def le_bytes4)

lemma pci_get_set_quad_other: "a + 4 \<le> b \<or> b + 8 \<le> a \<Longrightarrow> pci_get_long (pci_set_quad c b v) a = pci_get_long c a"
  by (auto simp add: pci_get_long_def pci_set_quad_def le_bytes8)

lemma small_bits:
  assumes "(g :: 32 word) < 2 ^ k" "bit g n" shows "n < k"
proof -
  have e: "g AND mask k = g" using assms(1) by (rule less_mask_eq)
  have "bit (g AND mask k) n" unfolding e by (rule assms(2))
  then show ?thesis by (simp add: bit_and_iff bit_mask_iff)
qed

lemma gms6_field: 
  assumes "g \<le> 0x10" shows "drop_bit 3 ((gmch AND NOT (push_bit 3 0x1f)) OR push_bit 3 (g :: 32 word)) AND 0x1f = g"
proof -
  have "g < 0x20" using assms by (simp add: word_le_nat_alt word_less_nat_alt)
  then have u: "g < 2 ^ 5" by simp
  have m: "(0x1f :: 32 word) = mask 5" by (simp add: mask_eq_exp_minus_1)
  show ?thesis
    unfolding m
    by (rule bit_word_eqI) (auto simp add: bit_simps dest: small_bits [OF u])
qed

lemma gms8_field: 
  assumes "g \<le> 0x40" shows "drop_bit 8 ((gmch AND NOT (push_bit 8 0xff)) OR push_bit 8 (g :: 32 word)) AND 0xff = g"
proof -
  have "g < 0x100" using assms by (simp add: word_le_nat_alt word_less_nat_alt)
  then have u: "g < 2 ^ 8" by simp
  have m: "(0xff :: 32 word) = mask 8" by (simp add: mask_eq_exp_minus_1)
  show ?thesis
    unfolding m
    by (rule bit_word_eqI) (auto simp add: bit_simps dest: small_bits [OF u])
qed

lemma gms6_rest:
  assumes "g \<le> 0x10"
  shows "((gmch AND NOT (push_bit 3 0x1f)) OR push_bit 3 (g :: 32 word)) AND NOT (push_bit 3 0x1f) = gmch AND NOT (push_bit 3 0x1f)"
proof -
  have "g < 0x20" using assms by (simp add: word_le_nat_alt word_less_nat_alt)
  then have u: "g < 2 ^ 5" by simp
  have m: "(0x1f :: 32 word) = mask 5" by (simp add: mask_eq_exp_minus_1)
  show ?thesis
    unfolding m
    by (rule bit_word_eqI) (auto simp add: bit_simps dest: small_bits [OF u])
qed

lemma gms8_rest:
  assumes "g \<le> 0x40"
  shows "((gmch AND NOT (push_bit 8 0xff)) OR push_bit 8 (g :: 32 word)) AND NOT (push_bit 8 0xff) = gmch AND NOT (push_bit 8 0xff)"
proof -
  have "g < 0x100" using assms by (simp add: word_le_nat_alt word_less_nat_alt)
  then have u: "g < 2 ^ 8" by simp
  have m: "(0xff :: 32 word) = mask 8" by (simp add: mask_eq_exp_minus_1)
  show ?thesis
    unfolding m
    by (rule bit_word_eqI) (auto simp add: bit_simps dest: small_bits [OF u])
qed

section \<open>What the setup steps leave alone\<close>

lemma pread_vdev: "pread m n off = (r, m') \<Longrightarrow> vdev m' = vdev m"
  by (auto simp: pread_def Let_def split: pread_result.splits)

lemma store_config_igd_gms: "igd_gms (vdev (store_config m d a bs)) = igd_gms (vdev m)"
  by (simp add: store_config_def split: option.splits bus_slot.splits)

lemma copy_igd_gms: "vfio_pci_igd_copy m d info list = (ret, m') \<Longrightarrow> igd_gms (vdev m') = igd_gms (vdev m)"
proof (induction list arbitrary: m)
  case Nil
  then show ?case by simp
next
  case (Cons e list)
  obtain off len where e: "e = (off, len)" by (cases e)
  obtain r m1 where p: "pread m len (info_offset info + word_of_nat off) = (r, m1)"
    by (cases "pread m len (info_offset info + word_of_nat off)")
  define m2 where "m2 = (case r of PreadError e \<Rightarrow> m1 | PreadBytes bs \<Rightarrow> store_config m1 d off bs)"
  have g2: "igd_gms (vdev m2) = igd_gms (vdev m)"
    using pread_vdev [OF p] by (simp add: m2_def store_config_igd_gms split: pread_result.splits)
  show ?case
  proof (cases "sint (pread_ret r) \<noteq> int len")
    case True
    with Cons.prems have "m' = error_report m2 IgdCopyFailed"
      by (simp add: e p m2_def Let_def)
    then show ?thesis using g2 by (simp add: error_report_def)
  next
    case False
    with Cons.prems have "vfio_pci_igd_copy m2 d info list = (ret, m')"
      by (simp add: e p m2_def Let_def)
    from Cons.IH [OF this] g2 show ?thesis by simp
  qed
qed

lemma opregion_init_igd_gms: "vfio_pci_igd_opregion_init m info = (r, m') \<Longrightarrow> igd_gms (vdev m') = igd_gms (vdev m)"
  by (auto simp: vfio_pci_igd_opregion_init_def Let_def fw_cfg_add_file_def
      split: prod.splits if_splits dest: pread_vdev)

lemma setup_opregion_igd_gms: "vfio_pci_igd_setup_opregion m = (r, m') \<Longrightarrow> igd_gms (vdev m') = igd_gms (vdev m)"
  by (auto simp: vfio_pci_igd_setup_opregion_def vfio_get_dev_region_info_def
      split: if_splits option.splits dest: opregion_init_igd_gms)

lemma lpc_init_igd_gms: "vfio_pci_igd_lpc_init m info = (r, m') \<Longrightarrow> igd_gms (vdev m') = igd_gms (vdev m)"
  by (auto simp: vfio_pci_igd_lpc_init_def Let_def pci_create_simple_def
      split: option.splits dest: copy_igd_gms)

lemma host_init_igd_gms: "vfio_pci_igd_host_init m info = (r, m') \<Longrightarrow> igd_gms (vdev m') = igd_gms (vdev m)"
  by (auto simp: vfio_pci_igd_host_init_def error_report_def
      split: option.splits dest: copy_igd_gms)

lemma setup_lpc_bridge_igd_gms: "vfio_pci_igd_setup_lpc_bridge m = (r, m') \<Longrightarrow> igd_gms (vdev m') = igd_gms (vdev m)"
  by (auto simp: vfio_pci_igd_setup_lpc_bridge_def vfio_get_dev_region_info_def
      split: if_splits option.splits prod.splits dest!: lpc_init_igd_gms host_init_igd_gms)

lemma populate_vga_igd_gms: "vfio_populate_vga m = (r, m') \<Longrightarrow> igd_gms (vdev m') = igd_gms (vdev m)"
  by (auto simp: vfio_populate_vga_def split: if_splits)

lemma igd_bar4_setup_Inr:
  assumes "igd_bar4_setup m nr = Inr (gen, gmch, m4)"
  shows "gen = igd_gen (vdev m)" and "gmch = vfio_pci_read_config m IGD_GMCH 4"
    and "igd_gms (vdev m4) = igd_gms (vdev m)" and "\<not> not_legacy_igd m nr 4" and "gen \<noteq> - 1"
  using assms
  by (auto simp: igd_bar4_setup_def Let_def vfio_get_region_info_rom_def vfio_pci_read_config_def
      split: if_splits prod.splits sum.splits
      dest!: setup_lpc_bridge_igd_gms setup_opregion_igd_gms populate_vga_igd_gms)

section \<open>The count a read returns\<close>

lemma short_count_neq:
  assumes k: "k < unat (s :: 64 word)" and s: "s \<le> 0x7fffffffffffffff"
  shows "(scast (word_of_nat k :: 32 word) :: 64 word) \<noteq> s"
proof
  define w :: "32 word" where "w = word_of_nat k"
  assume "(scast (word_of_nat k :: 32 word) :: 64 word) = s"
  then have "s = (scast w :: 64 word)"
    unfolding w_def by (rule sym)
  also have "\<dots> = word_of_int (sint w)"
    by (rule scast_eq)
  finally have "uint s = uint (word_of_int (sint w) :: 64 word)"
    by (rule arg_cong)
  then have us: "uint s = sint w mod 2 ^ 64"
    by (simp only: uint_word_of_int) simp
  have s63: "uint s < 2 ^ 63"
    using s by (simp add: word_le_def)
  have ge: "- (2 ^ 31) \<le> sint w" using sint_ge [of w] by simp
  have lt: "sint w < 2 ^ 31" using sint_lt [of w] by simp
  show False
  proof (cases "sint w < 0")
    case True
    then have "(sint w + 2 ^ 64) mod 2 ^ 64 = sint w + 2 ^ 64"
      using ge by (intro mod_pos_pos_trivial) simp_all
    then have "sint w mod 2 ^ 64 = sint w + 2 ^ 64"
      by (simp only: mod_add_self2)
    with us s63 ge show False by simp
  next
    case False
    then have "sint w mod 2 ^ 32 = sint w" using lt by simp
    then have "uint w = sint w" by (simp add: uint_sint take_bit_eq_mod)
    moreover have "sint w mod 2 ^ 64 = sint w" using False lt by simp
    ultimately have "uint s = uint w" using us by simp
    then have "nat (uint s) = nat (uint w)" by (rule arg_cong)
    then have "unat s = unat w" by (simp only: unat_eq_nat_uint)
    also have "\<dots> = k mod 2 ^ 32" by (simp add: w_def unat_of_nat)
    also have "\<dots> \<le> k" by simp
    finally show False using k by simp
  qed
qed

lemma failed_count_neq:
  assumes "(s :: 64 word) \<le> 0x7fffffffffffffff"
  shows "(scast (- 1 :: 32 word) :: 64 word) \<noteq> s"
proof
  assume "(scast (- 1 :: 32 word) :: 64 word) = s"
  then have "s = - 1" by simp
  moreover have "(- 1 :: 64 word) = 0xffffffffffffffff" by simp
  ultimately have "s = 0xffffffffffffffff" by (simp only:)
  with assms show False by simp
qed

lemma pread_ret_short:
  assumes "short_read r (unat (s :: 64 word))" and "s \<le> 0x7fffffffffffffff"
  shows "(scast (pread_ret r) :: 64 word) \<noteq> s"
proof (cases r)
  case (PreadError e)
  then show ?thesis using failed_count_neq [OF assms(2)] by (simp add: pread_ret_def)
next
  case (PreadBytes bs)
  with assms(1) have "length bs < unat s" by (simp add: short_read_def)
  from short_count_neq [OF this assms(2)] PreadBytes show ?thesis
    by (simp add: pread_ret_def)
qed

lemma pread_short:
  assumes "short_read (host_pread m off n) n" and "pread m n off = (r, m1)"
  shows "short_read r n"
  using assms by (auto simp: pread_def short_read_def Let_def split: pread_result.splits)

lemma pread_frame:
  assumes "pread m n off = (r, m1)"
  shows "vdev m1 = vdev m" and "fw_cfg m1 = fw_cfg m" and "bus0 m1 = bus0 m" and "reports m1 = reports m"
  using assms by (auto simp: pread_def Let_def split: pread_result.splits)


section \<open>OpRegion setup\<close>

text \<open>
  Claim C5. On a device whose hot-added flag is set, OpRegion setup fails with
  \<open>UnsupportedHotplug\<close> and returns the state it was given: no region descriptor was
  asked for and no raw read was made (the log of kernel calls is part of the state), and
  the device is unchanged.
\<close>

theorem setup_opregion_hotplugged:
  "pdev_hotplugged (vdev m) \<Longrightarrow>
     vfio_pci_igd_setup_opregion m = (Inl (UnsupportedHotplug OpRegion), m)"
  by (simp add: vfio_pci_igd_setup_opregion_def)

text \<open>The hot-added Skylake machine satisfies the hypothesis of C5.\<close>

theorem setup_opregion_hotplugged_witness:
  "pdev_hotplugged (vdev hotplugged_machine) \<and>
   vfio_pci_igd_setup_opregion hotplugged_machine =
     (Inl (UnsupportedHotplug OpRegion), hotplugged_machine)"
proof -
  have h: "pdev_hotplugged (vdev hotplugged_machine)"
    by (simp add: hotplugged_machine_def)
  from h setup_opregion_hotplugged [OF h] show ?thesis by simp
qed

text \<open>
  Claim C6. When the raw read of the OpRegion fails or returns fewer bytes than the
  region size, \<open>vfio_pci_igd_opregion_init\<close> fails with \<open>ReadFailed\<close>, the
  device's OpRegion pointer is reset to none, no firmware configuration file is added,
  and the configuration bytes, the write mask and the emulated-bits mask of the device
  are what they were; so does OpRegion setup as a whole, on a device that is not
  hot-added, for the descriptor the kernel reports. The region size is one a buffer can
  have, at most \<open>SSIZE_MAX\<close>: the code compares the 32-bit \<open>int ret\<close> with the
  64-bit size after sign extension.
\<close>

theorem opregion_short_read:
  assumes size: "info_size info \<le> 0x7fffffffffffffff"
    and short: "short_read (host_pread m (info_offset info) (unat (info_size info)))
                  (unat (info_size info))"
  shows "(case vfio_pci_igd_opregion_init m info of (r, m') \<Rightarrow>
            r = Inl ReadFailed \<and> igd_opregion (vdev m') = None \<and> fw_cfg m' = fw_cfg m \<and>
            pdev_config (vdev m') = pdev_config (vdev m) \<and>
            pdev_wmask (vdev m') = pdev_wmask (vdev m) \<and>
            emulated_config_bits (vdev m') = emulated_config_bits (vdev m))
       \<and> (\<not> pdev_hotplugged (vdev m) \<and> host_dev_region m IGD_OPREGION = Some info \<longrightarrow>
           (case vfio_pci_igd_setup_opregion m of (r, m') \<Rightarrow>
            r = Inl ReadFailed \<and> igd_opregion (vdev m') = None \<and> fw_cfg m' = fw_cfg m \<and>
            pdev_config (vdev m') = pdev_config (vdev m) \<and>
            pdev_wmask (vdev m') = pdev_wmask (vdev m) \<and>
            emulated_config_bits (vdev m') = emulated_config_bits (vdev m)))"
proof -
  have init: "case vfio_pci_igd_opregion_init m0 info of (r, m') \<Rightarrow>
            r = Inl ReadFailed \<and> igd_opregion (vdev m') = None \<and> fw_cfg m' = fw_cfg m0 \<and>
            pdev_config (vdev m') = pdev_config (vdev m0) \<and>
            pdev_wmask (vdev m') = pdev_wmask (vdev m0) \<and>
            emulated_config_bits (vdev m') = emulated_config_bits (vdev m0)"
    if sh: "short_read (host_pread m0 (info_offset info) (unat (info_size info))) (unat (info_size info))"
    for m0
  proof -
    obtain r m1 where p: "pread m0 (unat (info_size info)) (info_offset info) = (r, m1)"
      by (cases "pread m0 (unat (info_size info)) (info_offset info)")
    have ne: "(scast (pread_ret r) :: 64 word) \<noteq> info_size info"
      using pread_ret_short [OF pread_short [OF sh p] size] .
    show ?thesis
      using ne pread_frame [OF p]
      by (simp add: vfio_pci_igd_opregion_init_def p Let_def)
  qed
  have via_init: "vfio_pci_igd_setup_opregion m =
      vfio_pci_igd_opregion_init (m\<lparr>syscalls := syscalls m @ [GetDevRegionInfo IGD_OPREGION]\<rparr>) info"
    if "\<not> pdev_hotplugged (vdev m)" "host_dev_region m IGD_OPREGION = Some info"
    using that by (simp add: vfio_pci_igd_setup_opregion_def vfio_get_dev_region_info_def)
  show ?thesis
    using init [of m, OF short]
      init [of "m\<lparr>syscalls := syscalls m @ [GetDevRegionInfo IGD_OPREGION]\<rparr>"] short
    by (auto simp: via_init)
qed

text \<open>
  The machine whose reads come back one byte short satisfies the hypotheses of C6: its
  4-byte OpRegion is read as 3 bytes.
\<close>

theorem opregion_short_read_witness:
  "info_size \<lparr>info_size = 4, info_offset = 0x1000\<rparr> \<le> 0x7fffffffffffffff \<and>
   short_read (host_pread short_read_machine 0x1000 4) 4 \<and>
   \<not> pdev_hotplugged (vdev short_read_machine) \<and>
   host_dev_region short_read_machine IGD_OPREGION = Some \<lparr>info_size = 4, info_offset = 0x1000\<rparr> \<and>
   fst (vfio_pci_igd_setup_opregion short_read_machine) = Inl ReadFailed \<and>
   igd_opregion (vdev (snd (vfio_pci_igd_setup_opregion short_read_machine))) = None \<and>
   fw_cfg (snd (vfio_pci_igd_setup_opregion short_read_machine)) = []"
proof -
  define info where "info = \<lparr>info_size = 4, info_offset = 0x1000\<rparr>"
  have a: "info_size info \<le> 0x7fffffffffffffff" by (simp add: info_def)
  have b: "short_read (host_pread short_read_machine (info_offset info) (unat (info_size info)))
                  (unat (info_size info))"
    by (simp add: info_def short_read_machine_def short_read_def)
  have c: "\<not> pdev_hotplugged (vdev short_read_machine)"
    by (simp add: short_read_machine_def skylake_machine_def igd_machine_def igd_device_def zero_device_def)
  have d: "host_dev_region short_read_machine IGD_OPREGION = Some info"
    by (simp add: short_read_machine_def skylake_machine_def igd_machine_def info_def)
  have e: "fw_cfg short_read_machine = []"
    by (simp add: short_read_machine_def skylake_machine_def igd_machine_def)
  from opregion_short_read [OF a b] c d e a b show ?thesis
    by (auto simp: info_def split: prod.splits)
qed

section \<open>Bridge setup\<close>

text \<open>
  Claim C7. On a device that is not hot-added, when the slot 00:1f.0 holds a device
  that is not of the type \<open>vfio-pci-igd-lpc-bridge\<close>, bridge setup fails with
  \<open>AddressConflict\<close> and returns the state it was given: nothing was written to the
  configuration space of the host bridge or of any other device, and no register was
  copied (no read was made).
\<close>

theorem lpc_bridge_address_conflict:
  assumes "\<not> pdev_hotplugged (vdev m)"
    and "bus0 m (PCI_DEVFN 0x1f 0) = Some dev"
    and "\<not> object_dynamic_cast dev ''vfio-pci-igd-lpc-bridge''"
  shows "vfio_pci_igd_setup_lpc_bridge m = (Inl AddressConflict, m)"
  using assms by (simp add: vfio_pci_igd_setup_lpc_bridge_def pci_find_device_def)

text \<open>The machine with an ICH9 LPC bridge at 00:1f.0 satisfies the hypotheses of C7.\<close>

theorem lpc_bridge_address_conflict_witness:
  "\<not> pdev_hotplugged (vdev q35_machine) \<and>
   bus0 q35_machine (PCI_DEVFN 0x1f 0) = Some (Peer ich9_lpc) \<and>
   \<not> object_dynamic_cast (Peer ich9_lpc) ''vfio-pci-igd-lpc-bridge'' \<and>
   vfio_pci_igd_setup_lpc_bridge q35_machine = (Inl AddressConflict, q35_machine)"
proof -
  have a: "\<not> pdev_hotplugged (vdev q35_machine)"
    by (simp add: q35_machine_def skylake_machine_def igd_machine_def igd_device_def zero_device_def)
  have b: "bus0 q35_machine (PCI_DEVFN 0x1f 0) = Some (Peer ich9_lpc)"
    by (simp add: q35_machine_def)
  have c: "\<not> object_dynamic_cast (Peer ich9_lpc) ''vfio-pci-igd-lpc-bridge''"
    by (simp add: object_dynamic_cast_def ich9_lpc_def)
  from a b c lpc_bridge_address_conflict [OF a b c] show ?thesis by simp
qed

section \<open>The region-0 probe\<close>

lemma ucast_16_32_eq: "((ucast (a :: 16 word) :: 32 word) = ucast (b :: 16 word)) = (a = b)"
proof -
  have u: "unat (ucast (w :: 16 word) :: 32 word) = unat w" for w
  proof -
    have "unat w < 2 ^ 16" using unsigned_less [of w, where ?'a = nat] by simp
    then have "unat w < 2 ^ 32" by simp
    then show ?thesis by (simp add: unsigned_ucast_eq take_bit_eq_mod)
  qed
  show ?thesis by (simp add: word_unat_eq_iff u)
qed

lemma is_pdev_of_vdev_iff: "is_pdev_of_vdev p = (p = Some ThisDevice)"
  by (simp add: is_pdev_of_vdev_def split: option.splits bus_slot.splits)

lemma not_legacy_igd_iff:
  "not_legacy_igd m nr wanted =
     (\<not> (vendor_id (vdev m) = 0x8086 \<and> pci_get_word (pdev_config (vdev m)) 0x0a = 0x0300 \<and>
         nr = wanted \<and> bus0 m (PCI_DEVFN 2 0) = Some ThisDevice))"
proof -
  have "(ucast (0x8086 :: 16 word) :: 32 word) = ucast (vendor_id (vdev m))
          = (vendor_id (vdev m) = 0x8086)"
    unfolding ucast_16_32_eq by auto
  moreover have "(ucast (0x8086 :: 16 word) :: 32 word) \<noteq> - 1" by simp
  ultimately show ?thesis
    by (simp add: not_legacy_igd_def vfio_pci_is_def vfio_is_vga_def PCI_ANY_ID_def
        PCI_VENDOR_ID_INTEL_def PCI_CLASS_DEVICE_def PCI_CLASS_DISPLAY_VGA_def
        pci_find_device_def is_pdev_of_vdev_iff del: ucast_bintr)
qed

text \<open>
  Claim C8. The region-0 probe returns the state unchanged when the generation is below
  6, and when the device is not an Intel VGA device at 00:02.0 or the region index is not
  0. For an Intel VGA device at 00:02.0, region index 0 and a generation of at least 6 it
  puts exactly two mirrors at the head of the quirk list of region 0 and changes nothing
  else: one of 2 bytes at MMIO offset \<open>0x108040\<close> for the graphics control register
  at configuration offset \<open>0x50\<close>, and one at MMIO offset \<open>0x1080C0\<close> for the base
  of stolen memory, 4 bytes from configuration offset \<open>0x5C\<close> below generation 11 and
  8 bytes from configuration offset \<open>0xC0\<close> from generation 11 on.
\<close>

theorem bar0_quirk_mirrors:
  "(igd_gen (vdev m) < 6 \<longrightarrow> vfio_probe_igd_bar0_quirk m nr = m) \<and>
   (vendor_id (vdev m) \<noteq> 0x8086 \<or> pci_get_word (pdev_config (vdev m)) 0x0a \<noteq> 0x0300 \<or>
    bus0 m (PCI_DEVFN 2 0) \<noteq> Some ThisDevice \<or> nr \<noteq> 0 \<longrightarrow>
    vfio_probe_igd_bar0_quirk m nr = m) \<and>
   (vendor_id (vdev m) = 0x8086 \<and> pci_get_word (pdev_config (vdev m)) 0x0a = 0x0300 \<and>
    bus0 m (PCI_DEVFN 2 0) = Some ThisDevice \<and> nr = 0 \<and> 6 \<le> igd_gen (vdev m) \<longrightarrow>
    vfio_probe_igd_bar0_quirk m nr =
      m\<lparr>vdev := (vdev m)\<lparr>bar_quirks := (bar_quirks (vdev m))
        (0 :=
          [\<lparr>mr_name = ''vfio-igd-bdsm-quirk'',
            mr_size = (if igd_gen (vdev m) < 11 then 4 else 8), mr_priority = 1, bar = 0,
            offset = 0x1080C0,
            config_offset = (if igd_gen (vdev m) < 11 then 0x5C else 0xC0)\<rparr>,
           \<lparr>mr_name = ''vfio-igd-ggc-quirk'', mr_size = 2, mr_priority = 1, bar = 0,
            offset = 0x108040, config_offset = 0x50\<rparr>]
          @ bar_quirks (vdev m) 0)\<rparr>\<rparr>)"
  by (auto simp: vfio_probe_igd_bar0_quirk_def not_legacy_igd_iff Let_def quirk_insert_head_def
      IGD_GGC_MMIO_OFFSET_def IGD_BDSM_MMIO_OFFSET_def IGD_GMCH_def IGD_BDSM_def
      IGD_BDSM_GEN11_def)

text \<open>
  The Skylake machine gets the two mirrors, the second of 4 bytes from \<open>0x5C\<close>; the
  same machine with the device ID \<open>0x7121\<close>, which no rule of the classifier
  matches, gets none.
\<close>

theorem bar0_quirk_mirrors_witness:
  "6 \<le> igd_gen (vdev skylake_machine) \<and>
   bar_quirks (vdev (vfio_probe_igd_bar0_quirk skylake_machine 0)) 0 =
     [\<lparr>mr_name = ''vfio-igd-bdsm-quirk'', mr_size = 4, mr_priority = 1, bar = 0,
       offset = 0x1080C0, config_offset = 0x5C\<rparr>,
      \<lparr>mr_name = ''vfio-igd-ggc-quirk'', mr_size = 2, mr_priority = 1, bar = 0,
       offset = 0x108040, config_offset = 0x50\<rparr>] \<and>
   igd_gen (vdev (igd_machine 0x7121 0)) < 6 \<and>
   vfio_probe_igd_bar0_quirk (igd_machine 0x7121 0) 0 = igd_machine 0x7121 0"
proof -
  have g: "igd_gen (vdev skylake_machine) = 9"
    by (simp add: skylake_machine_def igd_machine_def igd_device_def igd_gen_def)
  have v: "vendor_id (vdev skylake_machine) = 0x8086"
    by (simp add: skylake_machine_def igd_machine_def igd_device_def)
  have c: "pci_get_word (pdev_config (vdev skylake_machine)) 0x0a = 0x0300"
    by (simp add: skylake_machine_def igd_machine_def igd_device_def pci_get_word_def)
  have b: "bus0 skylake_machine (PCI_DEVFN 2 0) = Some ThisDevice"
    by (simp add: skylake_machine_def igd_machine_def PCI_DEVFN_def)
  have q: "bar_quirks (vdev skylake_machine) 0 = []"
    by (simp add: skylake_machine_def igd_machine_def igd_device_def zero_device_def)
  have u: "igd_gen (vdev (igd_machine 0x7121 0)) = - 1"
    by (simp add: igd_machine_def igd_device_def igd_gen_def)
  from bar0_quirk_mirrors [of skylake_machine 0] bar0_quirk_mirrors [of "igd_machine 0x7121 0" 0]
  show ?thesis by (simp add: g v c b q u)
qed

section \<open>The region-4 probe\<close>

lemma gms_field_code:
  "gms_field gen gmch = (if gen < 8 then drop_bit 3 gmch AND 0x1f else drop_bit 8 gmch AND 0xff)"
proof -
  have "(0x1f :: 32 word) = mask 5" "(0xff :: 32 word) = mask 8"
    by (simp_all add: mask_eq_exp_minus_1)
  then show ?thesis by (simp only: gms_field_def take_bit_eq_mask)
qed

lemma gms_field_unat:
  "unat (gms_field gen gmch) = (if gen < 8 then unat gmch div 2 ^ 3 mod 2 ^ 5
                   else unat gmch div 2 ^ 8 mod 2 ^ 8)"
  by (simp add: gms_field_code unat_gms_gen6 unat_gms_gen8)

lemma stolen_size_small_field:
  assumes "unat (gms_field gen gmch) < 0xF0"
  shows "unat (igd_stolen_memory_size gen gmch) = unat (gms_field gen gmch) * (32 * 2 ^ 20)"
  using assms unfolding igd_stolen_memory_size_unat gms_field_unat Let_def
  by (auto split: if_splits)

lemma override_cases:
  "igd_bar4_override m gen gmch =
     (let g = igd_gms (vdev m) in
      if g = 0 then (gmch, m)
      else if (if gen < 8 then g \<le> 0x10 else g \<le> 0x40)
      then (if gen < 8 then (gmch AND NOT (push_bit 3 0x1f)) OR push_bit 3 g
            else (gmch AND NOT (push_bit 8 0xff)) OR push_bit 8 g, m)
      else (gmch, error_report m
              (InvalidParameterValue ''x-igd-gms'' (if gen < 8 then ''0~0x10'' else ''0~0x40''))))"
  by (simp add: igd_bar4_override_def Let_def IGD_GMCH_GEN6_GMS_SHIFT_def
      IGD_GMCH_GEN6_GMS_MASK_def IGD_GMCH_GEN8_GMS_SHIFT_def IGD_GMCH_GEN8_GMS_MASK_def)

lemma override_accepted:
  fixes gmch g :: "32 word" and gen :: int
  assumes "if gen < 8 then g \<le> 0x10 else g \<le> (0x40 :: 32 word)"
  defines "gmch' \<equiv> (if gen < 8 then (gmch AND NOT (push_bit 3 0x1f)) OR push_bit 3 g
            else (gmch AND NOT (push_bit 8 0xff)) OR push_bit 8 g)"
  shows "gms_field gen gmch' = g" and "gms_cleared gen gmch' = gms_cleared gen gmch"
proof -
  have c: "(0xf8 :: 32 word) = push_bit 3 0x1f" "(0xff00 :: 32 word) = push_bit 8 0xff"
    by simp_all
  show "gms_field gen gmch' = g"
  proof (cases "gen < 8")
    case True
    with assms(1) have "g \<le> 0x10" by simp
    from gms6_field [OF this] True show ?thesis
      by (simp only: gmch'_def gms_field_code if_True)
  next
    case False
    with assms(1) have "g \<le> 0x40" by simp
    from gms8_field [OF this] False show ?thesis
      by (simp only: gmch'_def gms_field_code if_False)
  qed
  show "gms_cleared gen gmch' = gms_cleared gen gmch"
  proof (cases "gen < 8")
    case True
    with assms(1) have "g \<le> 0x10" by simp
    from gms6_rest [OF this] True show ?thesis
      by (simp only: gmch'_def gms_cleared_def c if_True)
  next
    case False
    with assms(1) have "g \<le> 0x40" by simp
    from gms8_rest [OF this] False show ?thesis
      by (simp only: gmch'_def gms_cleared_def c if_False)
  qed
qed

lemma publish_facts:
  fixes m gen gmch
  defines "m' \<equiv> igd_bar4_publish m gen gmch"
  shows "fw_cfg m' = fw_cfg m @ [(''etc/igd-bdsm-size'', le_bytes 8 (igd_stolen_memory_size gen gmch))]"
    and "reports m' = reports m"
    and "pci_get_long (pdev_config (vdev m')) IGD_GMCH = gmch"
    and "pci_get_long (pdev_wmask (vdev m')) IGD_GMCH = 0"
    and "pci_get_long (emulated_config_bits (vdev m')) IGD_GMCH = 0xffffffff"
    and "gen < 11 \<Longrightarrow> pci_get_long (pdev_config (vdev m')) IGD_BDSM = 0"
    and "gen < 11 \<Longrightarrow> pci_get_long (pdev_wmask (vdev m')) IGD_BDSM = 0xffffffff"
    and "gen < 11 \<Longrightarrow> pci_get_long (emulated_config_bits (vdev m')) IGD_BDSM = 0xffffffff"
  unfolding m'_def
  by (simp_all add: igd_bar4_publish_def Let_def fw_cfg_add_file_def IGD_GMCH_def IGD_BDSM_def
      IGD_BDSM_GEN11_def pci_get_set_long pci_get_set_long_other pci_get_set_quad_other)

lemma bar4_after_setup:
  assumes "igd_bar4_setup m nr = Inr (gen, gmch, m4)"
  shows "vfio_probe_igd_bar4_quirk m nr =
    (case igd_bar4_override m4 gen gmch of (gmch', m5) \<Rightarrow> igd_bar4_publish m5 gen gmch')"
  using assms by (simp add: vfio_probe_igd_bar4_quirk_def)

lemma le_bytes_512MiB: "le_bytes 8 (0x20000000 :: 64 word) = [0, 0, 0, 0x20, 0, 0, 0, 0]"
  by (simp add: le_bytes8)

lemma stolen_size_512MiB:
  assumes "gms_field 9 gmch = 0x10"
  shows "igd_stolen_memory_size 9 gmch = 0x20000000"
proof -
  have "unat (gms_field 9 gmch) < 0xF0" by (simp add: assms)
  from stolen_size_small_field [OF this]
  have "unat (igd_stolen_memory_size 9 gmch) = unat (0x20000000 :: 64 word)"
    by (simp add: assms)
  then show ?thesis by (simp only: word_unat_eq_iff)
qed

text \<open>The setup steps of the region-4 probe succeed on the concrete machines.\<close>

lemma skylake_setup: "\<not> isl (igd_bar4_setup skylake_machine 4)"
  by code_simp

lemma haswell_rejected_setup: "\<not> isl (igd_bar4_setup (igd_machine 0x0412 0x11) 4)"
  by code_simp

lemma skylake_accepted_setup: "\<not> isl (igd_bar4_setup (igd_machine 0x1912 0x40) 4)"
  by code_simp

text \<open>
  Claim C3, as amended. For a device with ID \<open>0x1912\<close> whose graphics control
  register carries the 8-bit stolen-memory field \<open>0x10\<close>, and whose \<open>x-igd-gms\<close>
  override leaves that field as it is (the override is 0, is \<open>0x10\<close> itself, or is
  above \<open>0x40\<close> and so rejected): when every setup step of the region-4 probe
  succeeds, the generation is 9, the stolen size is 512 MiB, the probe adds the firmware
  configuration file \<open>etc/igd-bdsm-size\<close> holding 512 MiB as a little-endian 64-bit
  value, and the 4-byte register at \<open>0x5C\<close> is 0 with a full write mask and a full
  emulated-bits mask.
\<close>

theorem bar4_skylake_end_to_end:
  assumes id: "device_id (vdev m) = 0x1912"
    and su: "igd_bar4_setup m nr = Inr (gen, gmch, m4)"
    and field: "take_bit 8 (drop_bit 8 (vfio_pci_read_config m IGD_GMCH 4)) = 0x10"
    and gms: "igd_gms (vdev m) = 0 \<or> igd_gms (vdev m) = 0x10 \<or> 0x40 < igd_gms (vdev m)"
  shows "let m' = vfio_probe_igd_bar4_quirk m nr
         in gen = 9 \<and>
            unat (igd_stolen_memory_size gen (pci_get_long (pdev_config (vdev m')) IGD_GMCH))
              = 512 * 2 ^ 20 \<and>
            fw_cfg m' = fw_cfg m4 @ [(''etc/igd-bdsm-size'', [0, 0, 0, 0x20, 0, 0, 0, 0])] \<and>
            pci_get_long (pdev_config (vdev m')) 0x5c = 0 \<and>
            pci_get_long (pdev_wmask (vdev m')) 0x5c = 0xffffffff \<and>
            pci_get_long (emulated_config_bits (vdev m')) 0x5c = 0xffffffff"
proof -
  define g where "g = igd_gms (vdev m)"
  have g4: "igd_gms (vdev m4) = g" using igd_bar4_setup_Inr(3) [OF su] by (simp add: g_def)
  have gen: "gen = 9"
    using igd_bar4_setup_Inr(1) [OF su] by (simp add: igd_gen_def id)
  have f0: "gms_field 9 gmch = 0x10"
    using field igd_bar4_setup_Inr(2) [OF su] by (simp add: gms_field_def)
  obtain gmch' m5 where ov: "igd_bar4_override m4 gen gmch = (gmch', m5)"
    by (cases "igd_bar4_override m4 gen gmch")
  have f: "gms_field 9 gmch' = 0x10" and fw: "fw_cfg m5 = fw_cfg m4"
  proof -
    consider "g = 0" | "g = 0x10" | "0x40 < g" using gms by (auto simp: g_def)
    then have "gms_field 9 gmch' = 0x10 \<and> fw_cfg m5 = fw_cfg m4"
    proof cases
      case 1
      with ov have "gmch' = gmch" "m5 = m4" by (simp_all add: override_cases g4)
      with f0 show ?thesis by simp
    next
      case 2
      have a: "if (9::int) < 8 then g \<le> 0x10 else g \<le> 0x40" by (simp add: 2)
      from ov 2 have "gmch' = (if (9::int) < 8 then (gmch AND NOT (push_bit 3 0x1f)) OR push_bit 3 g
            else (gmch AND NOT (push_bit 8 0xff)) OR push_bit 8 g)" "m5 = m4"
        by (simp_all add: override_cases g4 gen)
      with override_accepted(1) [OF a, of gmch] 2 show ?thesis by simp
    next
      case 3
      then have "g \<noteq> 0" "\<not> g \<le> 0x40" by (auto simp: word_less_nat_alt word_le_nat_alt)
      with ov have "gmch' = gmch" "fw_cfg m5 = fw_cfg m4"
        by (auto simp: override_cases g4 gen error_report_def)
      with f0 show ?thesis by simp
    qed
    then show "gms_field 9 gmch' = 0x10" and "fw_cfg m5 = fw_cfg m4" by simp_all
  qed
  have m': "vfio_probe_igd_bar4_quirk m nr = igd_bar4_publish m5 9 gmch'"
    using ov by (simp add: bar4_after_setup [OF su] gen)
  have sz: "igd_stolen_memory_size 9 gmch' = 0x20000000"
    using f by (rule stolen_size_512MiB)
  have bdsm: "IGD_BDSM = 0x5c" by (simp add: IGD_BDSM_def)
  show ?thesis
    using publish_facts(6,7,8) [of 9 m5 gmch']
    by (simp add: Let_def m' gen publish_facts(1,3) sz le_bytes_512MiB fw bdsm)
qed

text \<open>The Skylake machine without an override satisfies the hypotheses of C3.\<close>

theorem bar4_skylake_end_to_end_witness:
  "device_id (vdev skylake_machine) = 0x1912 \<and>
   \<not> isl (igd_bar4_setup skylake_machine 4) \<and>
   take_bit 8 (drop_bit 8 (vfio_pci_read_config skylake_machine IGD_GMCH 4)) = 0x10 \<and>
   igd_gms (vdev skylake_machine) = 0 \<and>
   (''etc/igd-bdsm-size'', [0, 0, 0, 0x20, 0, 0, 0, 0])
      \<in> set (fw_cfg (vfio_probe_igd_bar4_quirk skylake_machine 4)) \<and>
   pci_get_long (pdev_config (vdev (vfio_probe_igd_bar4_quirk skylake_machine 4))) 0x5c = 0 \<and>
   pci_get_long (pdev_wmask (vdev (vfio_probe_igd_bar4_quirk skylake_machine 4))) 0x5c
     = 0xffffffff \<and>
   pci_get_long (emulated_config_bits (vdev (vfio_probe_igd_bar4_quirk skylake_machine 4))) 0x5c
     = 0xffffffff"
proof -
  have a: "device_id (vdev skylake_machine) = 0x1912"
    by (simp add: skylake_machine_def igd_machine_def igd_device_def)
  obtain gen gmch m4 where b: "igd_bar4_setup skylake_machine 4 = Inr (gen, gmch, m4)"
    using skylake_setup by (cases "igd_bar4_setup skylake_machine 4") auto
  have c: "take_bit 8 (drop_bit 8 (vfio_pci_read_config skylake_machine IGD_GMCH 4)) = 0x10"
    by (simp add: skylake_machine_def igd_machine_def vfio_pci_read_config_def)
  have d: "igd_gms (vdev skylake_machine) = 0"
    by (simp add: skylake_machine_def igd_machine_def igd_device_def zero_device_def)
  from bar4_skylake_end_to_end [OF a b c] d a b c skylake_setup show ?thesis
    by (simp add: Let_def)
qed

text \<open>
  Claim C3 as the specification words it does not mention the override. The Skylake
  machine with \<open>x-igd-gms = 0x20\<close> has device ID \<open>0x1912\<close> and register field
  \<open>0x10\<close>, every setup step succeeds, and the file \<open>etc/igd-bdsm-size\<close> holds
  1 GiB, not 512 MiB.
\<close>

theorem bar4_skylake_override_counterexample:
  "device_id (vdev (igd_machine 0x1912 0x20)) = 0x1912 \<and>
   igd_gen (vdev (igd_machine 0x1912 0x20)) = 9 \<and>
   take_bit 8 (drop_bit 8 (vfio_pci_read_config (igd_machine 0x1912 0x20) IGD_GMCH 4)) = 0x10 \<and>
   \<not> isl (igd_bar4_setup (igd_machine 0x1912 0x20) 4) \<and>
   fw_cfg (vfio_probe_igd_bar4_quirk (igd_machine 0x1912 0x20) 4) =
     [(''etc/igd-opregion'', [0x5a, 0x5a, 0x5a, 0x5a]),
      (''etc/igd-bdsm-size'', [0, 0, 0, 0x40, 0, 0, 0, 0])]"
  by code_simp

text \<open>
  Claim C4. When the setup steps of the region-4 probe succeed and the \<open>x-igd-gms\<close>
  override is not 0, the probe goes on to publish the size computed from the value it
  leaves in the graphics control register. The override is accepted when it is at most
  \<open>0x10\<close> below generation 8 and at most \<open>0x40\<close> from generation 8 on: then the
  stolen-memory field of that value is the override, its other bits are those of the
  register, the size is the override times 32 MiB, and nothing is reported. Otherwise
  the override is rejected: \<open>InvalidParameterValue\<close> is reported for \<open>x-igd-gms\<close>
  with the range of the generation, and the value is the register as it was read.
\<close>

theorem bar4_override_validation:
  assumes su: "igd_bar4_setup m nr = Inr (gen, gmch, m4)"
    and nz: "igd_gms (vdev m) \<noteq> 0"
  shows "let g = igd_gms (vdev m);
             m' = vfio_probe_igd_bar4_quirk m nr;
             used = pci_get_long (pdev_config (vdev m')) IGD_GMCH
         in gen = igd_gen (vdev m) \<and> gmch = vfio_pci_read_config m IGD_GMCH 4 \<and>
            fw_cfg m' = fw_cfg m4 @
              [(''etc/igd-bdsm-size'', le_bytes 8 (igd_stolen_memory_size gen used))] \<and>
            (if (if gen < 8 then g \<le> 0x10 else g \<le> 0x40)
             then gms_field gen used = g \<and> gms_cleared gen used = gms_cleared gen gmch \<and>
                  unat (igd_stolen_memory_size gen used) = unat g * (32 * 2 ^ 20) \<and>
                  reports m' = reports m4
             else used = gmch \<and>
                  reports m' = reports m4 @
                    [InvalidParameterValue ''x-igd-gms''
                       (if gen < 8 then ''0~0x10'' else ''0~0x40'')])"
proof -
  define g where "g = igd_gms (vdev m)"
  have g4: "igd_gms (vdev m4) = g" using igd_bar4_setup_Inr(3) [OF su] by (simp add: g_def)
  have gnz: "g \<noteq> 0" using nz by (simp add: g_def)
  note ids = igd_bar4_setup_Inr(1,2) [OF su]
  show ?thesis
  proof (cases "if gen < 8 then g \<le> 0x10 else g \<le> 0x40")
    case True
    define gmch' where "gmch' = (if gen < 8 then (gmch AND NOT (push_bit 3 0x1f)) OR push_bit 3 g
            else (gmch AND NOT (push_bit 8 0xff)) OR push_bit 8 g)"
    have ov: "igd_bar4_override m4 gen gmch = (gmch', m4)"
      using True gnz by (simp add: override_cases g4 gmch'_def)
    have m': "vfio_probe_igd_bar4_quirk m nr = igd_bar4_publish m4 gen gmch'"
      by (simp add: bar4_after_setup [OF su] ov)
    have f: "gms_field gen gmch' = g" and c: "gms_cleared gen gmch' = gms_cleared gen gmch"
      using override_accepted [OF True] by (simp_all add: gmch'_def)
    have "unat g \<le> 0x40" using True by (auto simp: word_le_nat_alt split: if_splits)
    then have "unat (gms_field gen gmch') < 0xF0" by (simp add: f)
    from stolen_size_small_field [OF this]
    have sz: "unat (igd_stolen_memory_size gen gmch') = unat g * (32 * 2 ^ 20)"
      by (simp add: f)
    show ?thesis
      using True ids f c sz
      by (simp add: Let_def g_def [symmetric] m' publish_facts)
  next
    case False
    define r where "r = InvalidParameterValue ''x-igd-gms'' (if gen < 8 then ''0~0x10'' else ''0~0x40'')"
    have ov: "igd_bar4_override m4 gen gmch = (gmch, error_report m4 r)"
      using False gnz by (simp add: override_cases g4 r_def)
    have m': "vfio_probe_igd_bar4_quirk m nr = igd_bar4_publish (error_report m4 r) gen gmch"
      by (simp add: bar4_after_setup [OF su] ov)
    show ?thesis
      using False ids
      by (simp add: Let_def g_def [symmetric] m' publish_facts error_report_def r_def)
  qed
qed

text \<open>
  The examples of C4: generation 7 (Haswell \<open>0x0412\<close>) with \<open>0x11\<close> is rejected and
  the register is used as read; generation 9 with \<open>0x40\<close> is accepted and gives
  \<open>0x40\<close> times 32 MiB.
\<close>

theorem bar4_override_validation_witness:
  "igd_gen (vdev (igd_machine 0x0412 0x11)) = 7 \<and>
   \<not> isl (igd_bar4_setup (igd_machine 0x0412 0x11) 4) \<and>
   igd_gms (vdev (igd_machine 0x0412 0x11)) = 0x11 \<and>
   last (reports (vfio_probe_igd_bar4_quirk (igd_machine 0x0412 0x11) 4)) =
     InvalidParameterValue ''x-igd-gms'' ''0~0x10'' \<and>
   pci_get_long (pdev_config (vdev (vfio_probe_igd_bar4_quirk (igd_machine 0x0412 0x11) 4))) IGD_GMCH
     = vfio_pci_read_config (igd_machine 0x0412 0x11) IGD_GMCH 4 \<and>
   igd_gen (vdev (igd_machine 0x1912 0x40)) = 9 \<and>
   \<not> isl (igd_bar4_setup (igd_machine 0x1912 0x40) 4) \<and>
   igd_gms (vdev (igd_machine 0x1912 0x40)) = 0x40 \<and>
   gms_field 9
     (pci_get_long (pdev_config (vdev (vfio_probe_igd_bar4_quirk (igd_machine 0x1912 0x40) 4))) IGD_GMCH)
     = 0x40 \<and>
   unat (igd_stolen_memory_size 9
     (pci_get_long (pdev_config (vdev (vfio_probe_igd_bar4_quirk (igd_machine 0x1912 0x40) 4))) IGD_GMCH))
     = 0x40 * (32 * 2 ^ 20)"
proof -
  have ga: "igd_gen (vdev (igd_machine 0x0412 0x11)) = 7"
    by (simp add: igd_machine_def igd_device_def igd_gen_def)
  have na: "igd_gms (vdev (igd_machine 0x0412 0x11)) = 0x11"
    by (simp add: igd_machine_def igd_device_def)
  obtain gen gmch m4 where
    sa: "igd_bar4_setup (igd_machine 0x0412 0x11) 4 = Inr (gen, gmch, m4)"
    using haswell_rejected_setup by (cases "igd_bar4_setup (igd_machine 0x0412 0x11) 4") auto
  have za: "igd_gms (vdev (igd_machine 0x0412 0x11)) \<noteq> 0" by (simp add: na)
  have gb: "igd_gen (vdev (igd_machine 0x1912 0x40)) = 9"
    by (simp add: igd_machine_def igd_device_def igd_gen_def)
  have nb: "igd_gms (vdev (igd_machine 0x1912 0x40)) = 0x40"
    by (simp add: igd_machine_def igd_device_def)
  obtain gen' gmch' m4' where
    sb: "igd_bar4_setup (igd_machine 0x1912 0x40) 4 = Inr (gen', gmch', m4')"
    using skylake_accepted_setup by (cases "igd_bar4_setup (igd_machine 0x1912 0x40) 4") auto
  have zb: "igd_gms (vdev (igd_machine 0x1912 0x40)) \<noteq> 0" by (simp add: nb)
  note ta = bar4_override_validation [OF sa za, unfolded Let_def na]
  note tb = bar4_override_validation [OF sb zb, unfolded Let_def nb]
  have gen: "gen = 7" using ta ga by simp
  have gen': "gen' = 9" using tb gb by simp
  have ra: "(if gen < 8 then (0x11 :: 32 word) \<le> 0x10 else (0x11 :: 32 word) \<le> 0x40) = False"
    by (simp add: gen)
  have rb: "(if gen' < 8 then (0x40 :: 32 word) \<le> 0x10 else (0x40 :: 32 word) \<le> 0x40) = True"
    by (simp add: gen')
  from ta [unfolded ra if_False] have a1:
    "pci_get_long (pdev_config (vdev (vfio_probe_igd_bar4_quirk (igd_machine 0x0412 0x11) 4))) IGD_GMCH
       = gmch"
    and a2: "reports (vfio_probe_igd_bar4_quirk (igd_machine 0x0412 0x11) 4) =
       reports m4 @ [InvalidParameterValue ''x-igd-gms'' (if gen < 8 then ''0~0x10'' else ''0~0x40'')]"
    and a3: "gmch = vfio_pci_read_config (igd_machine 0x0412 0x11) IGD_GMCH 4"
    by blast+
  from tb [unfolded rb if_True] have b1:
    "gms_field gen'
       (pci_get_long (pdev_config (vdev (vfio_probe_igd_bar4_quirk (igd_machine 0x1912 0x40) 4))) IGD_GMCH)
       = 0x40"
    and b2: "unat (igd_stolen_memory_size gen'
       (pci_get_long (pdev_config (vdev (vfio_probe_igd_bar4_quirk (igd_machine 0x1912 0x40) 4))) IGD_GMCH))
       = unat (0x40 :: 32 word) * (32 * 2 ^ 20)"
    by blast+
  have a2': "last (reports (vfio_probe_igd_bar4_quirk (igd_machine 0x0412 0x11) 4)) =
     InvalidParameterValue ''x-igd-gms'' ''0~0x10''"
    by (simp add: a2 gen)
  have b2': "unat (igd_stolen_memory_size 9
       (pci_get_long (pdev_config (vdev (vfio_probe_igd_bar4_quirk (igd_machine 0x1912 0x40) 4))) IGD_GMCH))
       = 0x40 * (32 * 2 ^ 20)"
    using b2 by (simp add: gen')
  show ?thesis
    using ga haswell_rejected_setup na a2' a1 [unfolded a3] gb skylake_accepted_setup nb
      b1 [unfolded gen'] b2'
    by blast
qed

text \<open>
  Claim C10. When the setup steps of the region-4 probe succeed and the override is 0,
  the probe does what it does without an override: the register value is used unmodified
  and nothing is reported. Whatever the override, a register whose stolen-memory field
  is not zero never ends with a zero field: the override cannot force the size to zero.
\<close>

theorem bar4_zero_override_ignored:
  assumes su: "igd_bar4_setup m nr = Inr (gen, gmch, m4)"
  shows "let m' = vfio_probe_igd_bar4_quirk m nr;
             used = pci_get_long (pdev_config (vdev m')) IGD_GMCH
         in gmch = vfio_pci_read_config m IGD_GMCH 4 \<and>
            (igd_gms (vdev m) = 0 \<longrightarrow>
               m' = igd_bar4_publish m4 gen gmch \<and> used = gmch \<and> reports m' = reports m4 \<and>
               fw_cfg m' = fw_cfg m4 @
                 [(''etc/igd-bdsm-size'', le_bytes 8 (igd_stolen_memory_size gen gmch))]) \<and>
            (gms_field gen gmch \<noteq> 0 \<longrightarrow> gms_field gen used \<noteq> 0)"
proof -
  define g where "g = igd_gms (vdev m)"
  have g4: "igd_gms (vdev m4) = g" using igd_bar4_setup_Inr(3) [OF su] by (simp add: g_def)
  note ids = igd_bar4_setup_Inr(2) [OF su]
  consider (zero) "g = 0" | (accepted) "g \<noteq> 0" "if gen < 8 then g \<le> 0x10 else g \<le> 0x40"
    | (rejected) "g \<noteq> 0" "\<not> (if gen < 8 then g \<le> 0x10 else g \<le> 0x40)"
    by blast
  then show ?thesis
  proof cases
    case zero
    have ov: "igd_bar4_override m4 gen gmch = (gmch, m4)"
      using zero by (simp add: override_cases g4)
    have m': "vfio_probe_igd_bar4_quirk m nr = igd_bar4_publish m4 gen gmch"
      by (simp add: bar4_after_setup [OF su] ov)
    show ?thesis using ids by (simp add: Let_def m' publish_facts)
  next
    case accepted
    define gmch' where "gmch' = (if gen < 8 then (gmch AND NOT (push_bit 3 0x1f)) OR push_bit 3 g
            else (gmch AND NOT (push_bit 8 0xff)) OR push_bit 8 g)"
    have ov: "igd_bar4_override m4 gen gmch = (gmch', m4)"
      using accepted by (simp add: override_cases g4 gmch'_def)
    have m': "vfio_probe_igd_bar4_quirk m nr = igd_bar4_publish m4 gen gmch'"
      by (simp add: bar4_after_setup [OF su] ov)
    have f: "gms_field gen gmch' = g"
      using override_accepted(1) [OF accepted(2)] by (simp add: gmch'_def)
    show ?thesis using ids accepted(1) f
      by (simp add: Let_def g_def [symmetric] m' publish_facts)
  next
    case rejected
    define r where "r = InvalidParameterValue ''x-igd-gms'' (if gen < 8 then ''0~0x10'' else ''0~0x40'')"
    have ov: "igd_bar4_override m4 gen gmch = (gmch, error_report m4 r)"
      using rejected by (simp add: override_cases g4 r_def)
    have m': "vfio_probe_igd_bar4_quirk m nr = igd_bar4_publish (error_report m4 r) gen gmch"
      by (simp add: bar4_after_setup [OF su] ov)
    show ?thesis using ids rejected(1)
      by (simp add: Let_def g_def [symmetric] m' publish_facts)
  qed
qed

text \<open>The Skylake machine, whose override is 0, keeps the register value \<open>0x1000\<close>.\<close>

theorem bar4_zero_override_ignored_witness:
  "igd_gms (vdev skylake_machine) = 0 \<and>
   \<not> isl (igd_bar4_setup skylake_machine 4) \<and>
   gms_field 9 (vfio_pci_read_config skylake_machine IGD_GMCH 4) = 0x10 \<and>
   pci_get_long (pdev_config (vdev (vfio_probe_igd_bar4_quirk skylake_machine 4))) IGD_GMCH
     = vfio_pci_read_config skylake_machine IGD_GMCH 4"
proof -
  have d: "igd_gms (vdev skylake_machine) = 0"
    by (simp add: skylake_machine_def igd_machine_def igd_device_def zero_device_def)
  obtain gen gmch m4 where b: "igd_bar4_setup skylake_machine 4 = Inr (gen, gmch, m4)"
    using skylake_setup by (cases "igd_bar4_setup skylake_machine 4") auto
  have c: "gms_field 9 (vfio_pci_read_config skylake_machine IGD_GMCH 4) = 0x10"
    by (simp add: skylake_machine_def igd_machine_def vfio_pci_read_config_def gms_field_def)
  note t = bar4_zero_override_ignored [OF b, unfolded Let_def]
  from t have e: "gmch = vfio_pci_read_config skylake_machine IGD_GMCH 4"
    by (rule conjunct1)
  from t d have
    "pci_get_long (pdev_config (vdev (vfio_probe_igd_bar4_quirk skylake_machine 4))) IGD_GMCH = gmch"
    by blast
  then have f:
    "pci_get_long (pdev_config (vdev (vfio_probe_igd_bar4_quirk skylake_machine 4))) IGD_GMCH
       = vfio_pci_read_config skylake_machine IGD_GMCH 4"
    by (simp only: e)
  from d skylake_setup c f show ?thesis by blast
qed

end
